theory Spec2Isabelle
  imports Main
begin

section \<open>JavaScript values\<close>

text \<open>
  Job payloads, request bodies and results are JSON values. An object is the list of its
  own properties in enumeration order (what \<^verbatim>\<open>Object.entries\<close> returns). Numbers are
  the integer-valued ones that JavaScript prints as decimal numerals (below \<open>10\<^sup>2\<^sup>1\<close> in
  magnitude); \<open>undefined\<close> is not a JSON value and appears as \<open>None\<close> where a
  property is read. Strings are sequences of code units.
\<close>

datatype json =
    JNull
  | JBool bool
  | JNum int
  | JStr string
  | JArr "json list"
  | JObj "(string \<times> json) list"

text \<open>A thrown value: the constructor name, the message and the \<^verbatim>\<open>code\<close> property.\<close>

datatype js_error = Err (kind: string) (message: string) (errcode: "string option")

definition Error :: "string \<Rightarrow> js_error" where
  "Error msg = Err ''Error'' msg None"

definition TypeError :: "string \<Rightarrow> js_error" where
  "TypeError msg = Err ''TypeError'' msg None"

text \<open>A promise is pending, fulfilled with a value, or rejected with an error.\<close>

datatype 'a promise = Pending | Fulfilled 'a | Rejected js_error

definition nl :: string where
  "nl = [CHR 0x0A]"

definition digit_char :: "nat \<Rightarrow> char" where
  "digit_char d = ''0123456789'' ! d"

fun decimal :: "nat \<Rightarrow> string" where
  "decimal n = (if n < 10 then [digit_char n] else decimal (n div 10) @ [digit_char (n mod 10)])"

declare decimal.simps [simp del]

text \<open>The decimal numeral of an integer, which is how JavaScript prints it below \<open>10\<^sup>2\<^sup>1\<close>.\<close>

definition number_text :: "int \<Rightarrow> string" where
  "number_text n = (if n < 0 then CHR ''-'' # decimal (nat (- n)) else decimal (nat n))"

fun join_with :: "string \<Rightarrow> string list \<Rightarrow> string" where
  "join_with sep [] = []"
| "join_with sep [x] = x"
| "join_with sep (x # y # ys) = x @ sep @ join_with sep (y # ys)"

text \<open>
  The string a template literal \<^verbatim>\<open>${v}\<close> inserts. An array is its elements joined by
  commas, with \<open>null\<close> elements empty; every plain object is \<^verbatim>\<open>[object Object]\<close>.
\<close>

fun js_string :: "json \<Rightarrow> string" where
  "js_string JNull = ''null''"
| "js_string (JBool b) = (if b then ''true'' else ''false'')"
| "js_string (JNum n) = number_text n"
| "js_string (JStr s) = s"
| "js_string (JArr xs) = join_with '','' (map (\<lambda>x. if x = JNull then [] else js_string x) xs)"
| "js_string (JObj kvs) = ''[object Object]''"

definition template :: "json option \<Rightarrow> string" where
  "template v = (case v of None \<Rightarrow> ''undefined'' | Some x \<Rightarrow> js_string x)"

fun truthy :: "json \<Rightarrow> bool" where
  "truthy JNull = False"
| "truthy (JBool b) = b"
| "truthy (JNum n) = (n \<noteq> 0)"
| "truthy (JStr s) = (s \<noteq> [])"
| "truthy (JArr xs) = True"
| "truthy (JObj kvs) = True"

definition truthy_opt :: "json option \<Rightarrow> bool" where
  "truthy_opt v = (case v of None \<Rightarrow> False | Some x \<Rightarrow> truthy x)"

text \<open>An object literal drops a property whose value is \<open>undefined\<close> when it is serialised.\<close>

definition own_prop :: "string \<Rightarrow> json option \<Rightarrow> (string \<times> json) list" where
  "own_prop key v = (case v of None \<Rightarrow> [] | Some x \<Rightarrow> [(key, x)])"

fun indexed :: "nat \<Rightarrow> 'a list \<Rightarrow> (string \<times> 'a) list" where
  "indexed i [] = []"
| "indexed i (x # xs) = (decimal i, x) # indexed (Suc i) xs"

fun own_entries :: "json \<Rightarrow> (string \<times> json) list" where
  "own_entries (JObj kvs) = kvs"
| "own_entries (JArr xs) = indexed 0 xs"
| "own_entries (JStr s) = indexed 0 (map (\<lambda>c. JStr [c]) s)"
| "own_entries v = []"

text \<open>\<^verbatim>\<open>Object.entries(v)\<close>: a TypeError on \<open>null\<close>, the own properties otherwise.\<close>

definition Object_entries :: "json \<Rightarrow> js_error + (string \<times> json) list" where
  "Object_entries v =
     (if v = JNull then Inl (TypeError ''Cannot convert undefined or null to object'')
      else Inr (own_entries v))"

text \<open>
  Reading a named property \<^verbatim>\<open>v.key\<close> of a JSON value, for a key that is no built-in
  property of strings or arrays: a TypeError on \<open>null\<close>, the property of an object,
  \<open>undefined\<close> on everything else.
\<close>

fun get_prop :: "json \<Rightarrow> string \<Rightarrow> js_error + json option" where
  "get_prop JNull key =
     Inl (TypeError (''Cannot read properties of null (reading '' @ [CHR 0x27] @ key @ [CHR 0x27] @ '')''))"
| "get_prop (JObj kvs) key = Inr (map_of kvs key)"
| "get_prop v key = Inr None"

text \<open>\<^verbatim>\<open>typeof v === 'object'\<close> on a value that may be \<open>undefined\<close>.\<close>

fun typeof_object :: "json option \<Rightarrow> bool" where
  "typeof_object (Some JNull) = True"
| "typeof_object (Some (JArr xs)) = True"
| "typeof_object (Some (JObj kvs)) = True"
| "typeof_object v = False"

section \<open>Inventory rendering (worker.js, runAnsiblePlaybook)\<close>

text \<open>
  The three nested \<^verbatim>\<open>for ... of Object.entries(...)\<close> loops, each appending to
  \<^verbatim>\<open>inventoryContent\<close>, which is the accumulator here.
\<close>

fun render_vars :: "string \<Rightarrow> (string \<times> json) list \<Rightarrow> string" where
  "render_vars content [] = content"
| "render_vars content ((key, val) # rest) =
     render_vars (content @ '' '' @ key @ ''='' @ js_string val) rest"

fun render_hosts :: "string \<Rightarrow> (string \<times> json) list \<Rightarrow> js_error + string" where
  "render_hosts content [] = Inr content"
| "render_hosts content ((host, vars) # rest) =
     (let content1 = content @ host in
      if truthy vars then
        (case Object_entries vars of
           Inl e \<Rightarrow> Inl e
         | Inr kvs \<Rightarrow> render_hosts (render_vars content1 kvs @ nl) rest)
      else render_hosts (content1 @ nl) rest)"

fun render_groups :: "string \<Rightarrow> (string \<times> json) list \<Rightarrow> js_error + string" where
  "render_groups content [] = Inr content"
| "render_groups content ((grp, hosts) # rest) =
     (let content1 = content @ ''['' @ grp @ '']'' @ nl in
      case get_prop hosts ''hosts'' of
        Inl e \<Rightarrow> Inl e
      | Inr None \<Rightarrow> render_groups (content1 @ nl) rest
      | Inr (Some hh) \<Rightarrow>
          if truthy hh then
            (case Object_entries hh of
               Inl e \<Rightarrow> Inl e
             | Inr hs \<Rightarrow>
                 (case render_hosts content1 hs of
                    Inl e \<Rightarrow> Inl e
                  | Inr content2 \<Rightarrow> render_groups (content2 @ nl) rest))
          else render_groups (content1 @ nl) rest)"

text \<open>
  What \<^verbatim>\<open>fs.writeFile\<close> makes of its data. A string is written as it is. An array
  is an iterable: its elements are written one after the other, and an element that is no
  string is refused (an element that is itself an array, or an object with a
  \<^verbatim>\<open>length\<close>, which \<^verbatim>\<open>Buffer.from\<close> would read as bytes, is outside this model).
  Everything else is refused with a TypeError before the file system is touched. The
  messages end with what was received (a string never is refused, so its clause of
  \<open>received\<close> is never used).
\<close>

fun received :: "json option \<Rightarrow> string" where
  "received None = ''undefined''"
| "received (Some JNull) = ''null''"
| "received (Some (JBool b)) = ''type boolean ('' @ js_string (JBool b) @ '')''"
| "received (Some (JNum n)) = ''type number ('' @ number_text n @ '')''"
| "received (Some (JStr s)) = ''type string''"
| "received (Some (JArr xs)) = ''an instance of Array''"
| "received (Some (JObj kvs)) = ''an instance of Object''"

definition invalid_data :: "json option \<Rightarrow> js_error" where
  \<open>invalid_data v = Err ''TypeError''
     (''The "data" argument must be of type string or an instance of Buffer, TypedArray, or DataView. Received '' @
      received v)
     (Some ''ERR_INVALID_ARG_TYPE'')\<close>

definition invalid_chunk :: "json \<Rightarrow> js_error" where
  \<open>invalid_chunk v = Err ''TypeError''
     (''The first argument must be of type string or an instance of Buffer, ArrayBuffer, or Array or an Array-like Object. Received '' @
      received (Some v))
     (Some ''ERR_INVALID_ARG_TYPE'')\<close>

text \<open>The text of the leading string elements, and the error at the first other element.\<close>

fun chunks_text :: "json list \<Rightarrow> string \<times> js_error option" where
  "chunks_text [] = ([], None)"
| "chunks_text (JStr s # rest) = (s @ fst (chunks_text rest), snd (chunks_text rest))"
| "chunks_text (v # rest) = ([], Some (invalid_chunk v))"

fun file_data :: "json option \<Rightarrow> js_error + string" where
  "file_data (Some (JStr s)) = Inr s"
| "file_data (Some (JArr chunks)) =
     (case snd (chunks_text chunks) of None \<Rightarrow> Inr (fst (chunks_text chunks)) | Some e \<Rightarrow> Inl e)"
| "file_data v = Inl (invalid_data v)"

text \<open>
  The value handed to \<^verbatim>\<open>fs.writeFile(inventoryPath, ...)\<close>: the rendered text when
  \<^verbatim>\<open>typeof inventory === 'object'\<close>, the inventory itself otherwise.
\<close>

definition inventory_data :: "json option \<Rightarrow> js_error + json option" where
  "inventory_data inventory =
     (case inventory of
        None \<Rightarrow> Inr inventory
      | Some v \<Rightarrow>
          if typeof_object inventory then
            (case Object_entries v of
               Inl e \<Rightarrow> Inl e
             | Inr groups \<Rightarrow>
                 (case render_groups [] groups of
                    Inl e \<Rightarrow> Inl e
                  | Inr inventoryContent \<Rightarrow> Inr (Some (JStr inventoryContent))))
          else Inr inventory)"

text \<open>The text that reaches the inventory file.\<close>

definition inventory_text :: "json option \<Rightarrow> js_error + string" where
  "inventory_text inventory =
     (case inventory_data inventory of Inl e \<Rightarrow> Inl e | Inr d \<Rightarrow> file_data d)"

section \<open>Jobs, environment and observable state\<close>

text \<open>The options object that \<^verbatim>\<open>createJob\<close> passes to \<^verbatim>\<open>jobQueue.add\<close>.\<close>

record backoff_opts =
  backoff_type :: string
  backoff_delay :: nat

record job_opts =
  removeOnComplete :: nat
  removeOnFail :: nat
  attempts :: nat
  backoff :: backoff_opts
  delay :: nat

text \<open>A queue job as the worker sees it; \<open>job_data\<close> holds the properties of \<^verbatim>\<open>job.data\<close>.\<close>

record job =
  job_id :: string
  job_name :: string
  job_data :: "(string \<times> json) list"
  processedOn :: int
  attemptsMade :: nat
  opts :: job_opts

text \<open>
  What a spawned child process does, as the events it raises on the handlers in order:
  chunks on stdout and stderr, \<^verbatim>\<open>close\<close> with the exit code (\<open>None\<close> is
  \<open>null\<close>, a process ended by a signal), \<^verbatim>\<open>error\<close>.
\<close>

datatype proc_event = Stdout string | Stderr string | Close "int option" | ProcError js_error

record spawn_call =
  command :: string
  args :: "string list"
  options :: "(string \<times> string) list"

text \<open>
  A message sent through socket.io: \<^verbatim>\<open>io.to(room).emit(event, payload)\<close>, or
  \<^verbatim>\<open>io.emit(event, payload)\<close> to every socket when the room is \<open>None\<close>.
\<close>

record io_event =
  room :: "string option"
  event :: string
  payload :: json

datatype fs_op = Mkdir string | WriteFile string | Rm string

record db_row =
  row_status :: string
  row_result :: "json option"
  row_started_at :: "int option"
  row_completed_at :: "int option"

text \<open>
  Everything outside the program that decides a run: the temporary directory, whether
  \<^verbatim>\<open>global.io\<close> is set, the clock (one reading for the attempt), what each spawned
  command does, which file-system calls fail, and whether database queries succeed.
\<close>

record env =
  tmpdir :: string
  io_present :: bool
  now_ms :: int
  now_iso :: string
  behaviour :: "string \<Rightarrow> string list \<Rightarrow> proc_event list"
  mkdir_error :: "string \<Rightarrow> js_error option"
  write_error :: "string \<Rightarrow> js_error option"
  rm_error :: "string \<Rightarrow> js_error option"
  db_reachable :: bool

text \<open>
  What the program changes: directories and files, the file-system calls made, the
  processes spawned, the socket.io messages sent, and the rows of the \<^verbatim>\<open>jobs\<close> table.
\<close>

record world =
  dirs :: "string set"
  files :: "string \<rightharpoonup> string"
  fs_log :: "fs_op list"
  spawned :: "spawn_call list"
  emitted :: "io_event list"
  rows :: "int \<rightharpoonup> db_row"

section \<open>Running a command (worker.js, executeCommand)\<close>

text \<open>Letters outside ASCII in the source's message literals, as UTF-8.\<close>

definition o_acute :: string where
  "o_acute = [CHR 0xC3, CHR 0xB3]"

definition a_acute :: string where
  "a_acute = [CHR 0xC3, CHR 0xA1]"

text \<open>The variables \<^verbatim>\<open>output\<close> and \<^verbatim>\<open>error\<close> of the closure, the promise and the messages sent.\<close>

record exec_state =
  stdout_text :: string
  stderr_text :: string
  settled :: "json promise"
  logs :: "io_event list"

text \<open>\<^verbatim>\<open>resolve\<close> and \<^verbatim>\<open>reject\<close> settle the promise once; later calls do nothing.\<close>

definition settle :: "json promise \<Rightarrow> exec_state \<Rightarrow> exec_state" where
  "settle p st = (if settled st = Pending then st\<lparr>settled := p\<rparr> else st)"

definition code_text :: "int option \<Rightarrow> string" where
  "code_text code = (case code of None \<Rightarrow> ''null'' | Some n \<Rightarrow> number_text n)"

definition exit_message :: "string \<Rightarrow> int option \<Rightarrow> string \<Rightarrow> string" where
  "exit_message cmd code err =
     cmd @ '' fall'' @ o_acute @ '' con c'' @ o_acute @ ''digo '' @ code_text code @ '':'' @ nl @ err"

definition not_installed_message :: "string \<Rightarrow> string" where
  "not_installed_message cmd =
     cmd @ '' no est'' @ a_acute @ '' instalado o no est'' @ a_acute @ '' en el PATH''"

text \<open>The four handlers of \<^verbatim>\<open>executeCommand\<close>, one per kind of event.\<close>

fun on_event :: "env \<Rightarrow> string \<Rightarrow> job \<Rightarrow> proc_event \<Rightarrow> exec_state \<Rightarrow> exec_state" where
  "on_event env cmd job (Stdout chunk) st =
     (let dbJobId = map_of (job_data job) ''dbJobId'';
          st1 = st\<lparr>stdout_text := stdout_text st @ chunk\<rparr>
      in if io_present env \<and> truthy_opt dbJobId then
           st1\<lparr>logs := logs st1 @
             [\<lparr>room = Some (''job-'' @ template dbJobId), event = ''job-log'',
               payload = JObj (own_prop ''jobId'' dbJobId @
                               [(''log'', JStr chunk), (''timestamp'', JStr (now_iso env))])\<rparr>]\<rparr>
         else st1)"
| "on_event env cmd job (Stderr chunk) st = st\<lparr>stderr_text := stderr_text st @ chunk\<rparr>"
| "on_event env cmd job (Close code) st =
     (if code = Some 0 then
        settle (Fulfilled (JObj [(''output'', JStr (stdout_text st)), (''exitCode'', JNum 0),
                                 (''duration'', JNum (now_ms env - processedOn job))])) st
      else settle (Rejected (Error (exit_message cmd code (stderr_text st)))) st)"
| "on_event env cmd job (ProcError err) st =
     (if errcode err = Some ''ENOENT'' then settle (Rejected (Error (not_installed_message cmd))) st
      else settle (Rejected err) st)"

fun run_events :: "env \<Rightarrow> string \<Rightarrow> job \<Rightarrow> proc_event list \<Rightarrow> exec_state \<Rightarrow> exec_state" where
  "run_events env cmd job [] st = st"
| "run_events env cmd job (ev # evs) st = run_events env cmd job evs (on_event env cmd job ev st)"

definition executeCommand ::
  "env \<Rightarrow> string \<Rightarrow> string list \<Rightarrow> job \<Rightarrow> world \<Rightarrow> json promise \<times> world" where
  "executeCommand env cmd argv job w =
     (let st = run_events env cmd job (behaviour env cmd argv)
                 \<lparr>stdout_text = [], stderr_text = [], settled = Pending, logs = []\<rparr>
      in (settled st,
          w\<lparr>spawned := spawned w @ [\<lparr>command = cmd, args = argv, options = []\<rparr>],
            emitted := emitted w @ logs st\<rparr>))"

section \<open>The availability probe (worker.js, checkDockerAvailable)\<close>

definition probe_call :: spawn_call where
  "probe_call = \<lparr>command = ''docker'', args = [''--version''], options = [(''stdio'', ''ignore'')]\<rparr>"

text \<open>
  The probe has handlers for \<^verbatim>\<open>close\<close> and \<^verbatim>\<open>error\<close> only, and the first of
  them to run resolves the promise.
\<close>

fun probe_result :: "proc_event list \<Rightarrow> bool promise" where
  "probe_result [] = Pending"
| "probe_result (Close code # rest) = Fulfilled (code = Some 0)"
| "probe_result (ProcError err # rest) = Fulfilled False"
| "probe_result (ev # rest) = probe_result rest"

definition checkDockerAvailable :: "env \<Rightarrow> world \<Rightarrow> bool promise \<times> world" where
  "checkDockerAvailable env w =
     (probe_result (behaviour env (command probe_call) (args probe_call)),
      w\<lparr>spawned := spawned w @ [probe_call]\<rparr>)"

section \<open>The playbook run (worker.js, runAnsiblePlaybook)\<close>

text \<open>
  \<^verbatim>\<open>path.join\<close> on POSIX: the non-empty arguments joined by \<^verbatim>\<open>/\<close>, then normalised.
  Normalising drops empty and \<^verbatim>\<open>.\<close> segments, lets \<^verbatim>\<open>..\<close> remove the segment
  before it (above the root it is dropped, above a relative start it is kept), and keeps
  a leading and a trailing \<^verbatim>\<open>/\<close>.
\<close>

fun segments :: "string \<Rightarrow> string list" where
  "segments [] = [[]]"
| "segments (c # cs) =
     (if c = CHR ''/'' then [] # segments cs
      else (case segments cs of [] \<Rightarrow> [[c]] | seg # segs \<Rightarrow> (c # seg) # segs))"

fun resolve :: "bool \<Rightarrow> string list \<Rightarrow> string list \<Rightarrow> string list" where
  "resolve allowAboveRoot res [] = rev res"
| "resolve allowAboveRoot res (seg # rest) =
     (if seg = [] \<or> seg = ''.'' then resolve allowAboveRoot res rest
      else if seg = ''..'' then
        (case res of
           [] \<Rightarrow> resolve allowAboveRoot (if allowAboveRoot then [''..''] else []) rest
         | lastSegment # below \<Rightarrow>
             if lastSegment \<noteq> ''..'' then resolve allowAboveRoot below rest
             else resolve allowAboveRoot (if allowAboveRoot then ''..'' # res else res) rest)
      else resolve allowAboveRoot (seg # res) rest)"

definition path_normalize :: "string \<Rightarrow> string" where
  "path_normalize p =
     (case p of
        [] \<Rightarrow> ''.''
      | c # cs \<Rightarrow>
          (let isAbsolute = (c = CHR ''/'');
               trailingSeparator = (last p = CHR ''/'');
               body = join_with ''/'' (resolve (\<not> isAbsolute) [] (segments p))
           in if body = [] then
                (if isAbsolute then ''/'' else if trailingSeparator then ''./'' else ''.'')
              else (if isAbsolute then ''/'' else []) @ body @
                   (if trailingSeparator then ''/'' else [])))"

definition path_join :: "string \<Rightarrow> string \<Rightarrow> string" where
  "path_join d name =
     path_normalize (if d = [] then name else if name = [] then d else d @ ''/'' @ name)"

text \<open>
  A path is inside a directory when it is the directory or lies below it: the segments of
  the directory begin those of the path.
\<close>

definition path_components :: "string \<Rightarrow> string list" where
  "path_components p = filter (\<lambda>seg. seg \<noteq> []) (segments p)"

definition inside :: "string \<Rightarrow> string \<Rightarrow> bool" where
  "inside d p =
     ((take 1 d = ''/'') = (take 1 p = ''/'') \<and>
      take (length (path_components d)) (path_components p) = path_components d)"

text \<open>
  The three file-system calls. Each is logged; whether it fails is the environment's
  choice. Writing an array opens the file and keeps what was written before an element
  is refused. \<^verbatim>\<open>fs.rm\<close> is called with \<^verbatim>\<open>recursive\<close> and \<^verbatim>\<open>force\<close>: it removes
  the directory with everything inside it.
\<close>

definition fs_mkdir :: "env \<Rightarrow> string \<Rightarrow> world \<Rightarrow> js_error option \<times> world" where
  "fs_mkdir env p w =
     (let w1 = w\<lparr>fs_log := fs_log w @ [Mkdir p]\<rparr> in
      case mkdir_error env p of
        Some e \<Rightarrow> (Some e, w1)
      | None \<Rightarrow> (None, w1\<lparr>dirs := insert p (dirs w1)\<rparr>))"

definition fs_writeFile :: "env \<Rightarrow> string \<Rightarrow> json option \<Rightarrow> world \<Rightarrow> js_error option \<times> world" where
  "fs_writeFile env p d w =
     (let w1 = w\<lparr>fs_log := fs_log w @ [WriteFile p]\<rparr> in
      case d of
        Some (JArr chunks) \<Rightarrow>
          (case write_error env p of
             Some e \<Rightarrow> (Some e, w1)
           | None \<Rightarrow>
               (snd (chunks_text chunks),
                w1\<lparr>files := (files w1)(p \<mapsto> fst (chunks_text chunks))\<rparr>))
      | _ \<Rightarrow>
          (case file_data d of
             Inl e \<Rightarrow> (Some e, w)
           | Inr content \<Rightarrow>
               (case write_error env p of
                  Some e \<Rightarrow> (Some e, w1)
                | None \<Rightarrow> (None, w1\<lparr>files := (files w1)(p \<mapsto> content)\<rparr>))))"

definition fs_rm :: "env \<Rightarrow> string \<Rightarrow> world \<Rightarrow> js_error option \<times> world" where
  "fs_rm env p w =
     (let w1 = w\<lparr>fs_log := fs_log w @ [Rm p]\<rparr> in
      case rm_error env p of
        Some e \<Rightarrow> (Some e, w1)
      | None \<Rightarrow>
          (None, w1\<lparr>dirs := Set.filter (\<lambda>d. \<not> inside p d) (dirs w1),
                     files := (\<lambda>q. if inside p q then None else files w1 q)\<rparr>))"

text \<open>\<^verbatim>\<open>JSON.stringify\<close>, used for the variables file.\<close>

definition hex_digit :: "nat \<Rightarrow> char" where
  "hex_digit d = ''0123456789abcdef'' ! d"

definition quote_char :: "char \<Rightarrow> string" where
  "quote_char c =
     (if c = CHR 0x22 then [CHR 0x5C, CHR 0x22]
      else if c = CHR 0x5C then [CHR 0x5C, CHR 0x5C]
      else if c = CHR 0x08 then [CHR 0x5C, CHR ''b'']
      else if c = CHR 0x0C then [CHR 0x5C, CHR ''f'']
      else if c = CHR 0x0A then [CHR 0x5C, CHR ''n'']
      else if c = CHR 0x0D then [CHR 0x5C, CHR ''r'']
      else if c = CHR 0x09 then [CHR 0x5C, CHR ''t'']
      else if (of_char c :: nat) < 32 then
        [CHR 0x5C, CHR ''u'', CHR ''0'', CHR ''0'',
         hex_digit (of_char c div 16), hex_digit (of_char c mod 16)]
      else [c])"

definition quote :: "string \<Rightarrow> string" where
  \<open>quote s = ''"'' @ concat (map quote_char s) @ ''"''\<close>

fun json_stringify :: "json \<Rightarrow> string" where
  "json_stringify JNull = ''null''"
| "json_stringify (JBool b) = (if b then ''true'' else ''false'')"
| "json_stringify (JNum n) = number_text n"
| "json_stringify (JStr s) = quote s"
| "json_stringify (JArr xs) = ''['' @ join_with '','' (map json_stringify xs) @ '']''"
| "json_stringify (JObj kvs) =
     ''{'' @ join_with '','' (map (\<lambda>kv. quote (fst kv) @ '':'' @ json_stringify (snd kv)) kvs) @ ''}''"

definition yaml_vars :: "(string \<times> json) list \<Rightarrow> string" where
  "yaml_vars entries = join_with nl (map (\<lambda>kv. fst kv @ '': '' @ json_stringify (snd kv)) entries)"

definition runWithDocker ::
  "env \<Rightarrow> string \<Rightarrow> string \<Rightarrow> string \<Rightarrow> string \<Rightarrow> job \<Rightarrow> world \<Rightarrow> json promise \<times> world" where
  "runWithDocker env workDir inventoryPath playbookPath extraVarsArg job w =
     (let dockerArgs =
            [''run'', ''--rm'', ''-v'', workDir @ '':/workspace'',
             ''quay.io/ansible/ansible-runner:latest'', ''ansible-playbook'',
             ''-i'', ''/workspace/inventory.ini'', ''/workspace/playbook.yml''];
          dockerArgs1 =
            (if extraVarsArg \<noteq> [] then dockerArgs @ [''--extra-vars'', ''@/workspace/vars.yml'']
             else dockerArgs)
      in executeCommand env ''docker'' dockerArgs1 job w)"

definition runWithLocalAnsible ::
  "env \<Rightarrow> string \<Rightarrow> string \<Rightarrow> string \<Rightarrow> string \<Rightarrow> job \<Rightarrow> world \<Rightarrow> json promise \<times> world" where
  "runWithLocalAnsible env workDir inventoryPath playbookPath extraVarsArg job w =
     (let ansibleArgs = [''-i'', inventoryPath, playbookPath];
          ansibleArgs1 =
            (if extraVarsArg \<noteq> [] then
               ansibleArgs @ [''--extra-vars'', ''@'' @ path_join workDir ''vars.yml'']
             else ansibleArgs)
      in executeCommand env ''ansible-playbook'' ansibleArgs1 job w)"

text \<open>The last two statements of the \<^verbatim>\<open>try\<close> block: the probe, then one of the two runs.\<close>

definition probe_and_run ::
  "env \<Rightarrow> string \<Rightarrow> string \<Rightarrow> string \<Rightarrow> string \<Rightarrow> job \<Rightarrow> world \<Rightarrow> json promise \<times> world" where
  "probe_and_run env workDir inventoryPath playbookPath extraVarsArg job w =
     (case checkDockerAvailable env w of
        (Pending, w1) \<Rightarrow> (Pending, w1)
      | (Rejected e, w1) \<Rightarrow> (Rejected e, w1)
      | (Fulfilled dockerAvailable, w1) \<Rightarrow>
          if dockerAvailable then runWithDocker env workDir inventoryPath playbookPath extraVarsArg job w1
          else runWithLocalAnsible env workDir inventoryPath playbookPath extraVarsArg job w1)"

text \<open>
  The variables file: written only when \<^verbatim>\<open>Object.keys(variables).length > 0\<close>; the
  result is \<^verbatim>\<open>extraVarsArg\<close>.
\<close>

definition write_vars :: "env \<Rightarrow> string \<Rightarrow> json \<Rightarrow> world \<Rightarrow> (js_error + string) \<times> world" where
  "write_vars env workDir variables w =
     (case Object_entries variables of
        Inl e \<Rightarrow> (Inl e, w)
      | Inr entries \<Rightarrow>
          if length entries > 0 then
            (let varsPath = path_join workDir ''vars.yml'' in
             case fs_writeFile env varsPath (Some (JStr (yaml_vars entries))) w of
               (Some e, w1) \<Rightarrow> (Inl e, w1)
             | (None, w1) \<Rightarrow> (Inr (''--extra-vars @'' @ varsPath), w1))
          else (Inr [], w))"

text \<open>The \<^verbatim>\<open>try\<close> block. Every rejected \<^verbatim>\<open>await\<close> leaves it with that error.\<close>

definition playbook_body :: "env \<Rightarrow> job \<Rightarrow> string \<Rightarrow> world \<Rightarrow> json promise \<times> world" where
  "playbook_body env job workDir w =
     (let playbook = map_of (job_data job) ''playbook'';
          inventory = map_of (job_data job) ''inventory'';
          variables = (case map_of (job_data job) ''variables'' of None \<Rightarrow> JObj [] | Some v \<Rightarrow> v)
      in
      case fs_mkdir env workDir w of
        (Some e, w1) \<Rightarrow> (Rejected e, w1)
      | (None, w1) \<Rightarrow>
          (let inventoryPath = path_join workDir ''inventory.ini'' in
           case inventory_data inventory of
             Inl e \<Rightarrow> (Rejected e, w1)
           | Inr d \<Rightarrow>
               (case fs_writeFile env inventoryPath d w1 of
                  (Some e, w2) \<Rightarrow> (Rejected e, w2)
                | (None, w2) \<Rightarrow>
                    (let playbookPath = path_join workDir ''playbook.yml'' in
                     case fs_writeFile env playbookPath playbook w2 of
                       (Some e, w3) \<Rightarrow> (Rejected e, w3)
                     | (None, w3) \<Rightarrow>
                         (case write_vars env workDir variables w3 of
                            (Inl e, w4) \<Rightarrow> (Rejected e, w4)
                          | (Inr extraVarsArg, w4) \<Rightarrow>
                              probe_and_run env workDir inventoryPath playbookPath
                                extraVarsArg job w4)))))"

definition work_dir :: "env \<Rightarrow> job \<Rightarrow> string" where
  "work_dir env job = path_join (tmpdir env) (''job-'' @ job_id job)"

text \<open>
  \<^verbatim>\<open>try { ... } finally { try { await fs.rm(...) } catch (err) { console.log(...) } }\<close>:
  when the block is left, with a value or with an error, the directory is removed and a
  failure of the removal is only logged. A block that never finishes (a process that never
  closes) is never left.
\<close>

definition runAnsiblePlaybook :: "env \<Rightarrow> job \<Rightarrow> world \<Rightarrow> json promise \<times> world" where
  "runAnsiblePlaybook env job w =
     (let workDir = work_dir env job in
      case playbook_body env job workDir w of
        (Pending, w1) \<Rightarrow> (Pending, w1)
      | (r, w1) \<Rightarrow> (r, snd (fs_rm env workDir w1)))"

section \<open>The simulated runners (worker.js)\<close>

text \<open>A promise that a \<^verbatim>\<open>setTimeout\<close> callback resolves: the delay in ms and the value.\<close>

datatype 'a timed = After (wait_ms: nat) (resolved: 'a)

definition runTestEcho :: "env \<Rightarrow> job \<Rightarrow> json timed" where
  "runTestEcho env job =
     (let message = map_of (job_data job) ''message'' in
      After 2000 (JObj [(''output'', JStr (''Echo: '' @ template message)),
                        (''timestamp'', JStr (now_iso env)),
                        (''exitCode'', JNum 0)]))"

definition runTerraformPlan :: "job \<Rightarrow> json timed" where
  "runTerraformPlan job =
     After 3000 (JObj [(''output'', JStr (''Terraform plan ejecutado exitosamente (simulaci'' @ o_acute @ ''n)'')),
                       (''plan'', JStr ''Plan: 1 to add, 0 to change, 0 to destroy''),
                       (''exitCode'', JNum 0)])"

definition runTerraformApply :: "job \<Rightarrow> json timed" where
  "runTerraformApply job =
     After 5000 (JObj [(''output'', JStr (''Terraform apply ejecutado exitosamente (simulaci'' @ o_acute @ ''n)'')),
                       (''applied'', JStr ''Apply complete! Resources: 1 added, 0 changed, 0 destroyed''),
                       (''exitCode'', JNum 0)])"

section \<open>The worker's processing function (worker.js)\<close>

text \<open>
  \<^verbatim>\<open>UPDATE jobs SET ... WHERE id = $n\<close> with \<^verbatim>\<open>job.data.dbJobId\<close> as the id. The
  module always exports a \<^verbatim>\<open>pool\<close>, so the query is always made. A failed query is
  caught and logged, so it changes nothing; so does an id that is \<open>undefined\<close> or no
  number, or that no row has.
\<close>

definition update_row :: "env \<Rightarrow> json option \<Rightarrow> (db_row \<Rightarrow> db_row) \<Rightarrow> world \<Rightarrow> world" where
  "update_row env dbJobId f w =
     (if db_reachable env then
        (case dbJobId of
           Some (JNum n) \<Rightarrow>
             (case rows w n of None \<Rightarrow> w | Some r \<Rightarrow> w\<lparr>rows := (rows w)(n \<mapsto> f r)\<rparr>)
         | _ \<Rightarrow> w)
      else w)"

text \<open>The \<^verbatim>\<open>switch (job.name)\<close>; the \<^verbatim>\<open>await\<close> of a simulated runner yields its value.\<close>

definition run_job :: "env \<Rightarrow> job \<Rightarrow> world \<Rightarrow> json promise \<times> world" where
  "run_job env job w =
     (if job_name job = ''ansible-playbook'' then runAnsiblePlaybook env job w
      else if job_name job = ''terraform-plan'' then (Fulfilled (resolved (runTerraformPlan job)), w)
      else if job_name job = ''terraform-apply'' then (Fulfilled (resolved (runTerraformApply job)), w)
      else if job_name job = ''test-echo'' then (Fulfilled (resolved (runTestEcho env job)), w)
      else (Rejected (Error (''Tipo de job desconocido: '' @ job_name job)), w))"

text \<open>
  The function given to \<^verbatim>\<open>new Worker\<close>: its \<^verbatim>\<open>try\<close> block, and the \<^verbatim>\<open>catch\<close>
  block that writes the failure and throws the error again.
\<close>

definition processor :: "env \<Rightarrow> job \<Rightarrow> world \<Rightarrow> json promise \<times> world" where
  "processor env job w =
     (let dbJobId = map_of (job_data job) ''dbJobId'';
          w1 = update_row env dbJobId
                 (\<lambda>r. r\<lparr>row_status := ''running'', row_started_at := Some (now_ms env)\<rparr>) w
      in
      case run_job env job w1 of
        (Pending, w2) \<Rightarrow> (Pending, w2)
      | (Fulfilled result, w2) \<Rightarrow>
          (let w3 = update_row env dbJobId
                      (\<lambda>r. r\<lparr>row_status := ''completed'', row_result := Some result,
                              row_completed_at := Some (now_ms env)\<rparr>) w2;
               w4 = (if io_present env then
                       w3\<lparr>emitted := emitted w3 @
                         [\<lparr>room = Some (''job-'' @ template dbJobId), event = ''job-completed'',
                           payload = JObj (own_prop ''jobId'' dbJobId @ [(''result'', result)])\<rparr>]\<rparr>
                     else w3)
           in (Fulfilled result, w4))
      | (Rejected err, w2) \<Rightarrow>
          (Rejected err,
           update_row env dbJobId
             (\<lambda>r. r\<lparr>row_status := ''failed'',
                     row_result := Some (JObj [(''error'', JStr (message err))]),
                     row_completed_at := Some (now_ms env)\<rparr>) w2))"

section \<open>The demo server (server.js)\<close>

text \<open>An entry of the in-memory \<^verbatim>\<open>jobs\<close> array; a field left out is \<open>None\<close>.\<close>

record demo_job =
  jid :: int
  jname :: "json option"
  jtype :: string
  jstatus :: string
  created_at :: string
  jpayload :: "json option"
  started_at :: "string option"
  completed_at :: "string option"
  jresult :: "json option"

text \<open>
  The callbacks given to \<^verbatim>\<open>setTimeout\<close>, with what they close over: the endpoint, the
  id of \<^verbatim>\<open>newJob\<close> and, for the playbook endpoint, \<^verbatim>\<open>name\<close>.
\<close>

datatype endpoint = Playbook | Plan | Apply

datatype callback = StartJob endpoint int "json option" | CompleteJob endpoint int "json option"

record server =
  jobs :: "demo_job list"
  timers :: "(nat \<times> callback) list"
  sent :: "io_event list"

record response =
  http_status :: nat
  http_body :: json

definition initial_jobs :: "string \<Rightarrow> string \<Rightarrow> demo_job list" where
  "initial_jobs started earlier =
     [\<lparr>jid = 1, jname = Some (JStr ''Deploy Web Server''), jtype = ''ansible-playbook'',
       jstatus = ''completed'', created_at = started, jpayload = None, started_at = None,
       completed_at = None,
       jresult = Some (JObj [(''output'', JStr ''Playbook ejecutado exitosamente''),
                             (''exitCode'', JNum 0)])\<rparr>,
      \<lparr>jid = 2, jname = Some (JStr ''AWS Infrastructure''), jtype = ''terraform-plan'',
       jstatus = ''running'', created_at = earlier, jpayload = None, started_at = None,
       completed_at = None, jresult = None\<rparr>]"

definition initial_server :: "string \<Rightarrow> string \<Rightarrow> server" where
  "initial_server started earlier = \<lparr>jobs = initial_jobs started earlier, timers = [], sent = []\<rparr>"

text \<open>\<^verbatim>\<open>jobs.find(j => j.id === id)\<close> followed by assignments to the job found.\<close>

fun update_found :: "int \<Rightarrow> (demo_job \<Rightarrow> demo_job) \<Rightarrow> demo_job list \<Rightarrow> demo_job list" where
  "update_found i f [] = []"
| "update_found i f (j # js) = (if jid j = i then f j # js else j # update_found i f js)"

definition found :: "int \<Rightarrow> demo_job list \<Rightarrow> bool" where
  "found i js = (find (\<lambda>j. jid j = i) js \<noteq> None)"

definition with_default :: "json option \<Rightarrow> json" where
  "with_default variables = (case variables of None \<Rightarrow> JObj [] | Some v \<Rightarrow> v)"

definition playbook_output :: "json option \<Rightarrow> string" where
  "playbook_output name =
     ''Playbook '' @ [CHR 0x22] @ template name @ [CHR 0x22] @
     '' ejecutado exitosamente (simulaci'' @ o_acute @ ''n)'' @ nl @ nl @
     ''TASK [Gathering Facts] ****'' @ nl @ ''ok: [localhost]'' @ nl @ nl @
     ''TASK [Debug message] ****'' @ nl @ ''ok: [localhost] => {'' @ nl @ ''    '' @
     [CHR 0x22] @ ''msg'' @ [CHR 0x22] @ '': '' @ [CHR 0x22] @
     ''Playbook ejecutado desde Conductor'' @ [CHR 0x22] @ nl @ ''}'' @ nl @ nl @
     ''PLAY RECAP ****'' @ nl @
     ''localhost : ok=2    changed=0    unreachable=0    failed=0''"

definition plan_output :: string where
  "plan_output =
     ''Terraform plan completado (simulaci'' @ o_acute @ ''n)'' @ nl @ nl @
     ''Terraform used the selected providers to generate the following execution plan.'' @
     nl @ ''Resource actions are indicated with the following symbols:'' @ nl @
     ''  + create'' @ nl @ nl @ ''Terraform will perform the following actions:'' @ nl @
     nl @ ''  # aws_instance.example will be created'' @ nl @ ''  + resource '' @
     [CHR 0x22] @ ''aws_instance'' @ [CHR 0x22] @ '' '' @ [CHR 0x22] @ ''example'' @
     [CHR 0x22] @ '' {'' @ nl @ ''      + ami                    = '' @ [CHR 0x22] @
     ''ami-0c02fb55956c7d316'' @ [CHR 0x22] @ nl @ ''      + instance_type          = '' @
     [CHR 0x22] @ ''t3.micro'' @ [CHR 0x22] @ nl @ ''    }'' @ nl @ nl @
     ''Plan: 1 to add, 0 to change, 0 to destroy.''"

definition apply_output :: string where
  "apply_output =
     ''Terraform apply completado (simulaci'' @ o_acute @ ''n)'' @ nl @ nl @
     ''aws_instance.example: Creating...'' @ nl @
     ''aws_instance.example: Still creating... [10s elapsed]'' @ nl @
     ''aws_instance.example: Still creating... [20s elapsed]'' @ nl @
     ''aws_instance.example: Creation complete after 22s [id=i-0abc123def456]'' @ nl @ nl @
     ''Apply complete! Resources: 1 added, 0 changed, 0 destroyed.'' @ nl @ nl @
     ''Outputs:'' @ nl @ nl @ ''instance_ip = '' @ [CHR 0x22] @ ''54.123.45.67'' @
     [CHR 0x22]"

definition simulated_result :: "endpoint \<Rightarrow> json option \<Rightarrow> json" where
  "simulated_result ep name =
     (case ep of
        Playbook \<Rightarrow> JObj [(''output'', JStr (playbook_output name)), (''exitCode'', JNum 0)]
      | Plan \<Rightarrow> JObj [(''output'', JStr plan_output),
                      (''plan'', JStr ''Plan: 1 to add, 0 to change, 0 to destroy''),
                      (''exitCode'', JNum 0)]
      | Apply \<Rightarrow> JObj [(''output'', JStr apply_output),
                       (''applied'', JStr ''Apply complete! Resources: 1 added, 0 changed, 0 destroyed''),
                       (''exitCode'', JNum 0)])"

definition completion_delay :: "endpoint \<Rightarrow> nat" where
  "completion_delay ep = (case ep of Playbook \<Rightarrow> 4000 | Plan \<Rightarrow> 6000 | Apply \<Rightarrow> 10000)"

text \<open>
  Running a timer callback at clock reading \<open>stamp\<close>. The outer callback marks the job
  found \<^verbatim>\<open>running\<close> (only the playbook endpoint emits a log line) and sets the inner
  timer; the inner one marks the job found \<^verbatim>\<open>completed\<close> and emits the result.
  \<^verbatim>\<open>global.io\<close> is set when the server is loaded.
\<close>

fun run_callback :: "string \<Rightarrow> callback \<Rightarrow> server \<Rightarrow> server" where
  "run_callback stamp (StartJob ep i name) s =
     (let s1 =
        (if found i (jobs s) then
           (let s' = s\<lparr>jobs := update_found i
                        (\<lambda>j. j\<lparr>jstatus := ''running'', started_at := Some stamp\<rparr>) (jobs s)\<rparr>
            in if ep = Playbook then
                 s'\<lparr>sent := sent s' @
                   [\<lparr>room = None, event = ''job-log'',
                     payload = JObj [(''jobId'', JNum i),
                       (''log'', JStr (''Iniciando ejecuci'' @ o_acute @ ''n del playbook '' @
                                      [CHR 0x22] @ template name @ [CHR 0x22] @ ''...'' @ nl)),
                       (''timestamp'', JStr stamp)]\<rparr>]\<rparr>
               else s')
         else s)
      in s1\<lparr>timers := timers s1 @ [(completion_delay ep, CompleteJob ep i name)]\<rparr>)"
| "run_callback stamp (CompleteJob ep i name) s =
     (if found i (jobs s) then
        (let res = simulated_result ep name;
             s' = s\<lparr>jobs := update_found i
                    (\<lambda>j. j\<lparr>jstatus := ''completed'', completed_at := Some stamp,
                            jresult := Some res\<rparr>) (jobs s)\<rparr>
         in s'\<lparr>sent := sent s' @
              [\<lparr>room = None, event = ''job-completed'',
                payload = JObj [(''jobId'', JNum i), (''status'', JStr ''completed''),
                                (''result'', res)]\<rparr>]\<rparr>)
      else s)"

text \<open>
  The four POST handlers, at \<^verbatim>\<open>Date.now() = now\<close> and clock reading \<open>stamp\<close>, on
  the parsed request body.
\<close>

definition post_playbook :: "int \<Rightarrow> string \<Rightarrow> (string \<times> json) list \<Rightarrow> server \<Rightarrow> response \<times> server" where
  "post_playbook now stamp body s =
     (let name = map_of body ''name'';
          playbook = map_of body ''playbook'';
          inventory = map_of body ''inventory'';
          variables = with_default (map_of body ''variables'')
      in
      if \<not> truthy_opt name \<or> \<not> truthy_opt playbook \<or> \<not> truthy_opt inventory then
        (\<lparr>http_status = 400,
          http_body = JObj [(''error'', JStr ''Faltan campos obligatorios: name, playbook, inventory'')]\<rparr>,
         s)
      else
        (let newJob =
               \<lparr>jid = now, jname = name, jtype = ''ansible-playbook'', jstatus = ''queued'',
                created_at = stamp,
                jpayload = Some (JObj (own_prop ''playbook'' playbook @ own_prop ''inventory'' inventory @
                                       [(''variables'', variables)])),
                started_at = None, completed_at = None, jresult = None\<rparr>
         in (\<lparr>http_status = 200,
              http_body = JObj [(''jobId'', JNum (jid newJob)), (''status'', JStr ''queued''),
                (''message'', JStr (''Playbook encolado para ejecuci'' @ o_acute @ ''n''))]\<rparr>,
             s\<lparr>jobs := newJob # jobs s,
               timers := timers s @ [(1000, StartJob Playbook (jid newJob) name)]\<rparr>)))"

definition post_terraform ::
  "endpoint \<Rightarrow> int \<Rightarrow> string \<Rightarrow> (string \<times> json) list \<Rightarrow> server \<Rightarrow> response \<times> server" where
  "post_terraform ep now stamp body s =
     (let name = map_of body ''name'';
          workingDir = map_of body ''workingDir'';
          variables = with_default (map_of body ''variables'');
          newJob =
            \<lparr>jid = (if ep = Plan then now + 1 else now + 2),
             jname = Some (JStr (template name @ (if ep = Plan then '' - Plan'' else '' - Apply''))),
             jtype = (if ep = Plan then ''terraform-plan'' else ''terraform-apply''),
             jstatus = ''queued'', created_at = stamp,
             jpayload = Some (JObj (own_prop ''workingDir'' workingDir @ [(''variables'', variables)])),
             started_at = None, completed_at = None, jresult = None\<rparr>
      in (\<lparr>http_status = 200,
           http_body = JObj [(''jobId'', JNum (jid newJob)), (''status'', JStr ''queued''),
             (''message'', JStr ((if ep = Plan then ''Terraform plan'' else ''Terraform apply'') @
                                 '' encolado para ejecuci'' @ o_acute @ ''n''))]\<rparr>,
          s\<lparr>jobs := newJob # jobs s,
            timers := timers s @ [(1000, StartJob ep (jid newJob) name)]\<rparr>))"

definition post_terraform_plan :: "int \<Rightarrow> string \<Rightarrow> (string \<times> json) list \<Rightarrow> server \<Rightarrow> response \<times> server" where
  "post_terraform_plan = post_terraform Plan"

definition post_terraform_apply :: "int \<Rightarrow> string \<Rightarrow> (string \<times> json) list \<Rightarrow> server \<Rightarrow> response \<times> server" where
  "post_terraform_apply = post_terraform Apply"

definition post_test_echo :: "int \<Rightarrow> string \<Rightarrow> (string \<times> json) list \<Rightarrow> server \<Rightarrow> response \<times> server" where
  "post_test_echo now stamp body s =
     (let message = map_of body ''message'';
          newJob =
            \<lparr>jid = now + 3, jname = Some (JStr (''Echo: '' @ template message)), jtype = ''test-echo'',
             jstatus = ''completed'', created_at = stamp, jpayload = None,
             started_at = None, completed_at = None,
             jresult = Some (JObj [(''output'', JStr (''Echo: '' @ template message)),
                                   (''exitCode'', JNum 0)])\<rparr>
      in (\<lparr>http_status = 200,
           http_body = JObj [(''jobId'', JNum (jid newJob)), (''status'', JStr ''completed''),
             (''message'', JStr (''Echo job creado: '' @ template message))]\<rparr>,
          s\<lparr>jobs := newJob # jobs s\<rparr>))"

datatype request =
    PostPlaybook "(string \<times> json) list"
  | PostTerraformPlan "(string \<times> json) list"
  | PostTerraformApply "(string \<times> json) list"
  | PostTestEcho "(string \<times> json) list"

fun handle :: "int \<Rightarrow> string \<Rightarrow> request \<Rightarrow> server \<Rightarrow> response \<times> server" where
  "handle now stamp (PostPlaybook body) s = post_playbook now stamp body s"
| "handle now stamp (PostTerraformPlan body) s = post_terraform_plan now stamp body s"
| "handle now stamp (PostTerraformApply body) s = post_terraform_apply now stamp body s"
| "handle now stamp (PostTestEcho body) s = post_test_echo now stamp body s"

section \<open>The queue (createJob, getQueueStats)\<close>

text \<open>
  The queue library is outside the program. What its calls return is the environment's
  choice: \<^verbatim>\<open>jobQueue.add\<close> rejects, or stores an entry under a new id with the name, the
  data and the options it was given; each of the four reads gives a list or rejects.
\<close>

record queue_entry =
  entry_id :: string
  entry_name :: string
  entry_data :: "(string \<times> json) list"
  entry_opts :: job_opts

record queue_env =
  add_error :: "js_error option"
  next_id :: string
  getWaiting :: "js_error + queue_entry list"
  getActive :: "js_error + queue_entry list"
  getCompleted :: "js_error + queue_entry list"
  getFailed :: "js_error + queue_entry list"

definition queue_add ::
  "queue_env \<Rightarrow> string \<Rightarrow> (string \<times> json) list \<Rightarrow> job_opts \<Rightarrow> js_error + queue_entry" where
  "queue_add q name d given =
     (case add_error q of
        Some e \<Rightarrow> Inl e
      | None \<Rightarrow> Inr \<lparr>entry_id = next_id q, entry_name = name, entry_data = d, entry_opts = given\<rparr>)"

definition createJob :: "queue_env \<Rightarrow> string \<Rightarrow> (string \<times> json) list \<Rightarrow> js_error + queue_entry" where
  "createJob q jobType jobData =
     (case queue_add q jobType jobData
             \<lparr>removeOnComplete = 50, removeOnFail = 20, attempts = 3,
              backoff = \<lparr>backoff_type = ''exponential'', backoff_delay = 2000\<rparr>,
              delay = 1000\<rparr> of
        Inr job \<Rightarrow> Inr job
      | Inl err \<Rightarrow> Inl err)"

record stats =
  waiting :: nat
  active :: nat
  completed :: nat
  failed :: nat

text \<open>The \<^verbatim>\<open>try\<close> block of \<^verbatim>\<open>getQueueStats\<close>: four awaits, the first rejection leaves it.\<close>

definition read_counts :: "queue_env \<Rightarrow> js_error + stats" where
  "read_counts q =
     (case getWaiting q of Inl e \<Rightarrow> Inl e | Inr waiting_jobs \<Rightarrow>
      case getActive q of Inl e \<Rightarrow> Inl e | Inr active_jobs \<Rightarrow>
      case getCompleted q of Inl e \<Rightarrow> Inl e | Inr completed_jobs \<Rightarrow>
      case getFailed q of Inl e \<Rightarrow> Inl e | Inr failed_jobs \<Rightarrow>
        Inr \<lparr>waiting = length waiting_jobs, active = length active_jobs,
             completed = length completed_jobs, failed = length failed_jobs\<rparr>)"

text \<open>With its \<^verbatim>\<open>catch\<close> block, which returns the zero counts.\<close>

definition getQueueStats :: "queue_env \<Rightarrow> js_error + stats" where
  "getQueueStats q =
     (case read_counts q of
        Inr counts \<Rightarrow> Inr counts
      | Inl err \<Rightarrow> Inr \<lparr>waiting = 0, active = 0, completed = 0, failed = 0\<rparr>)"

section \<open>Notions the properties are stated with\<close>

subsection \<open>The inventory format, section by section\<close>


fun mapping_entries :: "json \<Rightarrow> (string \<times> json) list" where
  "mapping_entries (JObj kvs) = kvs"
| "mapping_entries v = []"








subsection \<open>How a process run ends\<close>

text \<open>
  The first \<^verbatim>\<open>close\<close> or \<^verbatim>\<open>error\<close> event of a run, and the text captured on
  stdout and on stderr before it.
\<close>

datatype ending = NoEnd | Exit "int option" | Failure js_error

fun ending_of :: "proc_event list \<Rightarrow> ending" where
  "ending_of [] = NoEnd"
| "ending_of (Close code # rest) = Exit code"
| "ending_of (ProcError err # rest) = Failure err"
| "ending_of (ev # rest) = ending_of rest"

fun stdout_before :: "proc_event list \<Rightarrow> string" where
  "stdout_before [] = []"
| "stdout_before (Stdout chunk # rest) = chunk @ stdout_before rest"
| "stdout_before (Stderr chunk # rest) = stdout_before rest"
| "stdout_before (ev # rest) = []"

fun stderr_before :: "proc_event list \<Rightarrow> string" where
  "stderr_before [] = []"
| "stderr_before (Stderr chunk # rest) = chunk @ stderr_before rest"
| "stderr_before (Stdout chunk # rest) = stderr_before rest"
| "stderr_before (ev # rest) = []"

definition first_outcome :: "env \<Rightarrow> string \<Rightarrow> job \<Rightarrow> proc_event list \<Rightarrow> json promise" where
  "first_outcome env cmd job evs =
     (case ending_of evs of
        NoEnd \<Rightarrow> Pending
      | Exit code \<Rightarrow>
          if code = Some 0 then
            Fulfilled (JObj [(''output'', JStr (stdout_before evs)), (''exitCode'', JNum 0),
                             (''duration'', JNum (now_ms env - processedOn job))])
          else Rejected (Error (exit_message cmd code (stderr_before evs)))
      | Failure err \<Rightarrow>
          if errcode err = Some ''ENOENT'' then Rejected (Error (not_installed_message cmd))
          else Rejected err)"

subsection \<open>Reading the demo server\<close>

text \<open>
  The \<^verbatim>\<open>status\<close> field of a response, and the status of the job that
  \<^verbatim>\<open>jobs.find(j => j.id === i)\<close> gives.
\<close>

definition response_status :: "response \<Rightarrow> json option" where
  "response_status r = map_of (mapping_entries (http_body r)) ''status''"

definition status_of :: "int \<Rightarrow> server \<Rightarrow> string option" where
  "status_of i s = map_option jstatus (find (\<lambda>j. jid j = i) (jobs s))"

fun submitted_id :: "int \<Rightarrow> request \<Rightarrow> int" where
  "submitted_id now (PostPlaybook body) = now"
| "submitted_id now (PostTerraformPlan body) = now + 1"
| "submitted_id now (PostTerraformApply body) = now + 2"
| "submitted_id now (PostTestEcho body) = now + 3"

fun endpoint_of :: "request \<Rightarrow> endpoint" where
  "endpoint_of (PostPlaybook body) = Playbook"
| "endpoint_of (PostTerraformPlan body) = Plan"
| "endpoint_of (PostTerraformApply body) = Apply"
| "endpoint_of (PostTestEcho body) = Playbook"

fun body_of :: "request \<Rightarrow> (string \<times> json) list" where
  "body_of (PostPlaybook body) = body"
| "body_of (PostTerraformPlan body) = body"
| "body_of (PostTerraformApply body) = body"
| "body_of (PostTestEcho body) = body"


text \<open>The two timer callbacks of a submission.\<close>

definition start_callback :: "int \<Rightarrow> request \<Rightarrow> callback" where
  "start_callback now req =
     StartJob (endpoint_of req) (submitted_id now req) (map_of (body_of req) ''name'')"

definition complete_callback :: "int \<Rightarrow> request \<Rightarrow> callback" where
  "complete_callback now req =
     CompleteJob (endpoint_of req) (submitted_id now req) (map_of (body_of req) ''name'')"

definition never_failed :: "server \<Rightarrow> bool" where
  "never_failed s = list_all (\<lambda>j. jstatus j \<noteq> ''failed'') (jobs s)"

subsection \<open>What happens on the server later\<close>

text \<open>
  The server handles a request or runs a timer callback, one at a time. An event is
  foreign to an id when it is a request that gets another id or a callback of another id.
  \<open>jobs_with\<close> gives the jobs of the list that carry an id; \<open>submitted_job\<close> is the
  job that a request puts at the front of the list.
\<close>

datatype event = Request int string request | Timer string callback

fun step :: "event \<Rightarrow> server \<Rightarrow> server" where
  "step (Request now stamp req) s = snd (handle now stamp req s)"
| "step (Timer stamp cb) s = run_callback stamp cb s"

fun after :: "event list \<Rightarrow> server \<Rightarrow> server" where
  "after [] s = s"
| "after (ev # evs) s = after evs (step ev s)"



definition jobs_with :: "int \<Rightarrow> server \<Rightarrow> demo_job list" where
  "jobs_with i s = filter (\<lambda>j. jid j = i) (jobs s)"

definition submitted_job :: "int \<Rightarrow> string \<Rightarrow> request \<Rightarrow> server \<Rightarrow> demo_job" where
  "submitted_job now stamp req s = hd (jobs (snd (handle now stamp req s)))"

subsection \<open>Example inputs\<close>

definition scenario_inventory :: "(string \<times> json) list" where
  "scenario_inventory =
     [(''all'', JObj [(''hosts'',
         JObj [(''localhost'', JObj [(''ansible_connection'', JStr ''local'')])])]),
      (''spare'', JObj [])]"

definition enoent :: js_error where
  "enoent = Err ''Error'' ''spawn ENOENT'' (Some ''ENOENT'')"

definition quiet_env :: env where
  "quiet_env =
     \<lparr>tmpdir = ''/tmp'', io_present = True, now_ms = 1700000005000,
      now_iso = ''2023-11-14T22:13:25.000Z'', behaviour = (\<lambda>c a. []),
      mkdir_error = (\<lambda>p. None), write_error = (\<lambda>p. None), rm_error = (\<lambda>p. None),
      db_reachable = True\<rparr>"

definition succeeding_env :: env where
  "succeeding_env =
     quiet_env\<lparr>behaviour := (\<lambda>c a. [Stdout ''PLAY '', Stderr ''warn'', Stdout ''RECAP'', Close (Some 0)])\<rparr>"

definition failing_env :: env where
  "failing_env =
     quiet_env\<lparr>behaviour := (\<lambda>c a. [Stdout ''PLAY'', Stderr ''unreachable'', Close (Some 2)])\<rparr>"

definition missing_env :: env where
  "missing_env = quiet_env\<lparr>behaviour := (\<lambda>c a. [ProcError enoent, Close (Some (- 2))])\<rparr>"

definition empty_world :: world where
  "empty_world =
     \<lparr>dirs = {}, files = Map.empty, fs_log = [], spawned = [], emitted = [], rows = Map.empty\<rparr>"

definition default_opts :: job_opts where
  "default_opts =
     \<lparr>removeOnComplete = 50, removeOnFail = 20, attempts = 3,
      backoff = \<lparr>backoff_type = ''exponential'', backoff_delay = 2000\<rparr>, delay = 1000\<rparr>"

definition playbook_job :: job where
  "playbook_job =
     \<lparr>job_id = ''7'', job_name = ''ansible-playbook'',
      job_data = [(''playbook'', JStr ''- hosts: all''),
                  (''inventory'', JObj scenario_inventory),
                  (''dbJobId'', JNum 7)],
      processedOn = 1700000000000, attemptsMade = 0, opts = default_opts\<rparr>"

definition disk_full :: js_error where
  "disk_full = Err ''Error'' ''ENOSPC: no space left on device, write'' (Some ''ENOSPC'')"

text \<open>The command succeeds, but writing the playbook file fails.\<close>

definition injected_env :: env where
  "injected_env =
     succeeding_env\<lparr>write_error :=
       (\<lambda>p. if p = ''/tmp/job-7/playbook.yml'' then Some disk_full else None)\<rparr>"

text \<open>Docker is not installed; \<^verbatim>\<open>ansible-playbook\<close> is, and succeeds.\<close>

definition no_docker_env :: env where
  "no_docker_env =
     quiet_env\<lparr>behaviour :=
       (\<lambda>c a. if c = ''docker'' then [ProcError enoent, Close (Some (- 2))]
              else [Stdout ''PLAY RECAP'', Close (Some 0)])\<rparr>"

definition queued_row :: db_row where
  "queued_row =
     \<lparr>row_status = ''queued'', row_result = None, row_started_at = None,
      row_completed_at = None\<rparr>"

definition registry_world :: world where
  "registry_world = empty_world\<lparr>rows := [7 \<mapsto> queued_row]\<rparr>"

definition echo_job :: job where
  "echo_job =
     \<lparr>job_id = ''8'', job_name = ''test-echo'',
      job_data = [(''message'', JStr ''ping''), (''dbJobId'', JNum 7)],
      processedOn = 1700000000000, attemptsMade = 0, opts = default_opts\<rparr>"

definition demo_server :: server where
  "demo_server = initial_server ''2023-11-14T22:00:00.000Z'' ''2023-11-14T21:55:00.000Z''"

definition playbook_request :: request where
  "playbook_request =
     PostPlaybook [(''name'', JStr ''ping hosts''), (''playbook'', JStr ''- hosts: all''),
                   (''inventory'', JObj scenario_inventory)]"

definition plan_request :: request where
  "plan_request = PostTerraformPlan [(''name'', JStr ''vpc''), (''workingDir'', JStr ''/srv/tf'')]"

definition echo_request :: request where
  "echo_request = PostTestEcho [(''message'', JStr ''ping'')]"

definition events_before :: "event list" where
  "events_before = [Request 1700000000005 ''2023-11-14T22:13:20.005Z'' plan_request]"

definition events_between :: "event list" where
  "events_between =
     [Timer ''2023-11-14T22:13:21.005Z'' (start_callback 1700000000005 plan_request)]"

definition events_after :: "event list" where
  "events_after =
     [Request 1700000000900 ''2023-11-14T22:13:20.900Z'' echo_request,
      Timer ''2023-11-14T22:13:27.005Z'' (complete_callback 1700000000005 plan_request)]"

definition idle_queue :: queue_env where
  "idle_queue =
     \<lparr>add_error = None, next_id = ''1'', getWaiting = Inr [], getActive = Inr [],
      getCompleted = Inr [], getFailed = Inr []\<rparr>"

definition redis_down :: js_error where
  "redis_down = Err ''Error'' ''connect ECONNREFUSED 127.0.0.1:6379'' (Some ''ECONNREFUSED'')"

definition unreachable_queue :: queue_env where
  "unreachable_queue =
     \<lparr>add_error = Some redis_down, next_id = ''1'', getWaiting = Inl redis_down,
      getActive = Inl redis_down, getCompleted = Inl redis_down, getFailed = Inl redis_down\<rparr>"

section \<open>Properties\<close>

subsection \<open>Inventory rendering\<close>







subsection \<open>Command execution\<close>

lemma on_event_settled_stays:
  "settled st \<noteq> Pending \<Longrightarrow> settled (on_event env cmd job ev st) = settled st"
  by (cases ev) (auto simp: settle_def Let_def)

lemma run_events_settled_stays:
  "settled st \<noteq> Pending \<Longrightarrow> settled (run_events env cmd job evs st) = settled st"
proof (induction evs arbitrary: st)
  case Nil
  then show ?case by simp
next
  case (Cons ev evs)
  then show ?case by (simp add: on_event_settled_stays)
qed

lemma on_event_Stdout:
  "settled (on_event env cmd job (Stdout chunk) st) = settled st"
  "stdout_text (on_event env cmd job (Stdout chunk) st) = stdout_text st @ chunk"
  "stderr_text (on_event env cmd job (Stdout chunk) st) = stderr_text st"
  by (simp_all add: Let_def)

lemma on_event_Stderr:
  "settled (on_event env cmd job (Stderr chunk) st) = settled st"
  "stdout_text (on_event env cmd job (Stderr chunk) st) = stdout_text st"
  "stderr_text (on_event env cmd job (Stderr chunk) st) = stderr_text st @ chunk"
  by simp_all

lemma run_events_settled:
  "settled st = Pending \<Longrightarrow>
   settled (run_events env cmd job evs st) =
     (case ending_of evs of
        NoEnd \<Rightarrow> Pending
      | Exit code \<Rightarrow>
          if code = Some 0 then
            Fulfilled (JObj [(''output'', JStr (stdout_text st @ stdout_before evs)),
                             (''exitCode'', JNum 0),
                             (''duration'', JNum (now_ms env - processedOn job))])
          else Rejected (Error (exit_message cmd code (stderr_text st @ stderr_before evs)))
      | Failure err \<Rightarrow>
          if errcode err = Some ''ENOENT'' then Rejected (Error (not_installed_message cmd))
          else Rejected err)"
proof (induction evs arbitrary: st)
  case Nil
  then show ?case by simp
next
  case (Cons ev evs)
  show ?case
  proof (cases ev)
    case (Stdout chunk)
    then show ?thesis using Cons.prems Cons.IH [of "on_event env cmd job ev st"]
      by (simp add: on_event_Stdout del: on_event.simps split: ending.splits)
  next
    case (Stderr chunk)
    then show ?thesis using Cons.prems Cons.IH [of "on_event env cmd job ev st"]
      by (simp add: on_event_Stderr del: on_event.simps split: ending.splits)
  next
    case (Close code)
    then show ?thesis using Cons.prems
      by (simp add: run_events_settled_stays settle_def)
  next
    case (ProcError err)
    then show ?thesis using Cons.prems
      by (simp add: run_events_settled_stays settle_def)
  qed
qed

lemma executeCommand_first_outcome:
  "fst (executeCommand env cmd argv job w) = first_outcome env cmd job (behaviour env cmd argv)"
  by (simp add: executeCommand_def Let_def run_events_settled first_outcome_def split: ending.splits)

lemma messages_differ: "not_installed_message cmd \<noteq> exit_message cmd code err"
  by (simp add: not_installed_message_def exit_message_def)

text \<open>
  C4. \<^verbatim>\<open>executeCommand\<close> is fulfilled exactly when the process closes with exit code 0,
  and then with the captured stdout as \<^verbatim>\<open>output\<close> and \<^verbatim>\<open>exitCode\<close> 0. A close with
  another code rejects with an error whose message holds the exit code and the captured
  stderr. A spawn error with code ENOENT rejects with the "not installed" message, which
  differs from every exit-code message.
\<close>

theorem executeCommand_exit_code:
  "((\<exists>r. fst (executeCommand env cmd argv job w) = Fulfilled r) \<longleftrightarrow>
      ending_of (behaviour env cmd argv) = Exit (Some 0)) \<and>
   (ending_of (behaviour env cmd argv) = Exit (Some 0) \<longrightarrow>
      fst (executeCommand env cmd argv job w) =
        Fulfilled (JObj [(''output'', JStr (stdout_before (behaviour env cmd argv))),
                         (''exitCode'', JNum 0),
                         (''duration'', JNum (now_ms env - processedOn job))])) \<and>
   (ending_of (behaviour env cmd argv) = Exit code \<and> code \<noteq> Some 0 \<longrightarrow>
      fst (executeCommand env cmd argv job w) =
        Rejected (Error (cmd @ '' fall'' @ o_acute @ '' con c'' @ o_acute @ ''digo '' @
                         code_text code @ '':'' @ nl @ stderr_before (behaviour env cmd argv)))) \<and>
   (ending_of (behaviour env cmd argv) = Failure err \<and> errcode err = Some ''ENOENT'' \<longrightarrow>
      fst (executeCommand env cmd argv job w) = Rejected (Error (not_installed_message cmd)) \<and>
      (\<forall>c e. not_installed_message cmd \<noteq> exit_message cmd c e))"
proof -
  let ?evs = "behaviour env cmd argv"
  have eq: "fst (executeCommand env cmd argv job w) = first_outcome env cmd job ?evs"
    by (rule executeCommand_first_outcome)
  have iff: "(\<exists>r. first_outcome env cmd job ?evs = Fulfilled r) \<longleftrightarrow> ending_of ?evs = Exit (Some 0)"
    by (auto simp: first_outcome_def split: ending.splits)
  have ok: "ending_of ?evs = Exit (Some 0) \<longrightarrow>
      first_outcome env cmd job ?evs =
        Fulfilled (JObj [(''output'', JStr (stdout_before ?evs)), (''exitCode'', JNum 0),
                         (''duration'', JNum (now_ms env - processedOn job))])"
    by (simp add: first_outcome_def)
  have bad: "ending_of ?evs = Exit code \<and> code \<noteq> Some 0 \<longrightarrow>
      first_outcome env cmd job ?evs =
        Rejected (Error (cmd @ '' fall'' @ o_acute @ '' con c'' @ o_acute @ ''digo '' @
                         code_text code @ '':'' @ nl @ stderr_before ?evs))"
    by (simp add: first_outcome_def exit_message_def)
  have missing: "ending_of ?evs = Failure err \<and> errcode err = Some ''ENOENT'' \<longrightarrow>
      first_outcome env cmd job ?evs = Rejected (Error (not_installed_message cmd))"
    by (simp add: first_outcome_def)
  show ?thesis
    unfolding eq using iff ok bad missing messages_differ by blast
qed

theorem executeCommand_exit_code_witness:
  "ending_of (behaviour succeeding_env ''ansible-playbook'' []) = Exit (Some 0) \<and>
   fst (executeCommand succeeding_env ''ansible-playbook'' [] playbook_job empty_world) =
     Fulfilled (JObj [(''output'', JStr ''PLAY RECAP''), (''exitCode'', JNum 0),
                      (''duration'', JNum 5000)]) \<and>
   ending_of (behaviour failing_env ''ansible-playbook'' []) = Exit (Some 2) \<and>
   Some (2::int) \<noteq> Some 0 \<and>
   fst (executeCommand failing_env ''ansible-playbook'' [] playbook_job empty_world) =
     Rejected (Error (''ansible-playbook fall'' @ o_acute @ '' con c'' @ o_acute @
                      ''digo 2:'' @ nl @ ''unreachable'')) \<and>
   ending_of (behaviour missing_env ''ansible-playbook'' []) = Failure enoent \<and>
   errcode enoent = Some ''ENOENT'' \<and>
   fst (executeCommand missing_env ''ansible-playbook'' [] playbook_job empty_world) =
     Rejected (Error (not_installed_message ''ansible-playbook''))"
  using executeCommand_exit_code [of succeeding_env "''ansible-playbook''" "[]" playbook_job
          empty_world "Some 0" enoent]
        executeCommand_exit_code [of failing_env "''ansible-playbook''" "[]" playbook_job
          empty_world "Some 2" enoent]
        executeCommand_exit_code [of missing_env "''ansible-playbook''" "[]" playbook_job
          empty_world "Some 0" enoent]
  by (simp add: succeeding_env_def failing_env_def missing_env_def quiet_env_def enoent_def
        playbook_job_def code_text_def number_text_def decimal.simps digit_char_def)

text \<open>
  A group whose value is \<open>null\<close> is no mapping: reading its \<^verbatim>\<open>hosts\<close> raises a
  TypeError and nothing is written.
\<close>

lemma null_group_raises:
  "inventory_text (Some (JObj [(''all'', JNull)])) =
     Inl (TypeError (''Cannot read properties of null (reading '' @ [CHR 0x27] @ ''hosts'' @
                     [CHR 0x27] @ '')''))"
  by (simp add: inventory_text_def inventory_data_def Object_entries_def)

subsection \<open>Removal of the working directory\<close>

lemma fs_rm_log: "fs_log (snd (fs_rm env p w)) = fs_log w @ [Rm p]"
  by (simp add: fs_rm_def Let_def split: option.splits)

lemma fs_rm_gone:
  "rm_error env p = None \<Longrightarrow> inside p q \<Longrightarrow>
   q \<notin> dirs (snd (fs_rm env p w)) \<and> files (snd (fs_rm env p w)) q = None"
  by (simp add: fs_rm_def Let_def)

lemma probe_result_ending:
  "probe_result evs =
     (case ending_of evs of NoEnd \<Rightarrow> Pending | Exit code \<Rightarrow> Fulfilled (code = Some 0)
      | Failure err \<Rightarrow> Fulfilled False)"
  by (induction evs rule: probe_result.induct) simp_all

lemma executeCommand_pending:
  "fst (executeCommand env cmd argv job w) = Pending \<Longrightarrow> ending_of (behaviour env cmd argv) = NoEnd"
  by (auto simp: executeCommand_first_outcome first_outcome_def split: ending.splits if_splits)

lemma probe_and_run_pending:
  assumes "fst (probe_and_run env workDir ip pp ev job w) = Pending"
  shows "\<exists>cmd argv. ending_of (behaviour env cmd argv) = NoEnd"
proof (cases "probe_result (behaviour env ''docker'' [''--version''])")
  case Pending
  then show ?thesis by (auto simp: probe_result_ending split: ending.splits)
next
  case (Fulfilled dockerAvailable)
  with assms show ?thesis
    by (auto simp: probe_and_run_def checkDockerAvailable_def probe_call_def runWithDocker_def
          runWithLocalAnsible_def Let_def split: if_splits dest: executeCommand_pending)
next
  case (Rejected e)
  then show ?thesis by (simp add: probe_result_ending split: ending.splits)
qed

lemma playbook_body_pending:
  assumes "fst (playbook_body env job workDir w) = Pending"
  shows "\<exists>cmd argv. ending_of (behaviour env cmd argv) = NoEnd"
  using assms
  by (auto simp: playbook_body_def Let_def split: prod.splits option.splits sum.splits
      dest: probe_and_run_pending [where env = env])

lemma runAnsiblePlaybook_outcome:
  "fst (runAnsiblePlaybook env job w) = fst (playbook_body env job (work_dir env job) w)"
  by (simp add: runAnsiblePlaybook_def Let_def split: prod.splits promise.splits)

lemma runAnsiblePlaybook_world:
  "fst (playbook_body env job (work_dir env job) w) \<noteq> Pending \<Longrightarrow>
   snd (runAnsiblePlaybook env job w) =
     snd (fs_rm env (work_dir env job) (snd (playbook_body env job (work_dir env job) w)))"
  by (cases "playbook_body env job (work_dir env job) w";
      cases "fst (playbook_body env job (work_dir env job) w)")
     (simp_all add: runAnsiblePlaybook_def Let_def)

text \<open>
  C5. A playbook run ends exactly as its \<^verbatim>\<open>try\<close> block ends, with the same result or
  the same error, and the block ends whenever every process it spawns closes or fails.
  Whenever the block has ended, after normal completion as after an error of any step,
  the last file-system call of the run is the removal of the working directory; when that
  removal does not fail, neither the directory nor anything inside it exists afterwards.
\<close>

theorem cleanup_on_every_exit:
  "((\<forall>cmd argv. ending_of (behaviour env cmd argv) \<noteq> NoEnd) \<longrightarrow>
      fst (playbook_body env job (work_dir env job) w) \<noteq> Pending) \<and>
   fst (runAnsiblePlaybook env job w) = fst (playbook_body env job (work_dir env job) w) \<and>
   (fst (playbook_body env job (work_dir env job) w) \<noteq> Pending \<longrightarrow>
      fs_log (snd (runAnsiblePlaybook env job w)) =
        fs_log (snd (playbook_body env job (work_dir env job) w)) @ [Rm (work_dir env job)] \<and>
      (rm_error env (work_dir env job) = None \<longrightarrow>
         (\<forall>p. inside (work_dir env job) p \<longrightarrow>
            p \<notin> dirs (snd (runAnsiblePlaybook env job w)) \<and>
            files (snd (runAnsiblePlaybook env job w)) p = None)))"
proof -
  have settles: "(\<forall>cmd argv. ending_of (behaviour env cmd argv) \<noteq> NoEnd) \<longrightarrow>
      fst (playbook_body env job (work_dir env job) w) \<noteq> Pending"
    using playbook_body_pending [of env job "work_dir env job" w] by blast
  have removed: "fs_log (snd (runAnsiblePlaybook env job w)) =
        fs_log (snd (playbook_body env job (work_dir env job) w)) @ [Rm (work_dir env job)] \<and>
      (rm_error env (work_dir env job) = None \<longrightarrow>
         (\<forall>p. inside (work_dir env job) p \<longrightarrow>
            p \<notin> dirs (snd (runAnsiblePlaybook env job w)) \<and>
            files (snd (runAnsiblePlaybook env job w)) p = None))"
    if "fst (playbook_body env job (work_dir env job) w) \<noteq> Pending"
    using runAnsiblePlaybook_world [OF that] by (simp add: fs_rm_log fs_rm_gone)
  from settles removed runAnsiblePlaybook_outcome show ?thesis by blast
qed

lemmas run_defs =
  runAnsiblePlaybook_def playbook_body_def work_dir_def path_join_def path_normalize_def
  quiet_env_def playbook_job_def empty_world_def
  fs_mkdir_def fs_writeFile_def fs_rm_def inventory_data_def Object_entries_def
  scenario_inventory_def Let_def inside_def path_components_def nl_def write_vars_def
  probe_and_run_def checkDockerAvailable_def probe_call_def runWithLocalAnsible_def
  runWithDocker_def executeCommand_def settle_def enoent_def Error_def
  truthy_opt_def template_def own_prop_def number_text_def decimal.simps digit_char_def

text \<open>
  Three runs: the command succeeds, the command exits with code 2, and writing the
  playbook file fails after the directory was created.
\<close>

lemma succeeding_ends: "ending_of (behaviour succeeding_env cmd argv) = Exit (Some 0)"
  by (simp add: succeeding_env_def quiet_env_def)

theorem cleanup_on_every_exit_witness:
  "(\<forall>cmd argv. ending_of (behaviour succeeding_env cmd argv) \<noteq> NoEnd) \<and>
   work_dir succeeding_env playbook_job = ''/tmp/job-7'' \<and>
   rm_error succeeding_env ''/tmp/job-7'' = None \<and>
   inside ''/tmp/job-7'' ''/tmp/job-7/playbook.yml'' \<and>
   ''/tmp/job-7'' \<in> dirs (snd (playbook_body succeeding_env playbook_job ''/tmp/job-7'' empty_world)) \<and>
   files (snd (playbook_body succeeding_env playbook_job ''/tmp/job-7'' empty_world))
     ''/tmp/job-7/playbook.yml'' = Some ''- hosts: all'' \<and>
   fst (runAnsiblePlaybook succeeding_env playbook_job empty_world) =
     Fulfilled (JObj [(''output'', JStr ''PLAY RECAP''), (''exitCode'', JNum 0),
                      (''duration'', JNum 5000)]) \<and>
   fs_log (snd (runAnsiblePlaybook succeeding_env playbook_job empty_world)) =
     [Mkdir ''/tmp/job-7'', WriteFile ''/tmp/job-7/inventory.ini'',
      WriteFile ''/tmp/job-7/playbook.yml'', Rm ''/tmp/job-7''] \<and>
   ''/tmp/job-7'' \<notin> dirs (snd (runAnsiblePlaybook succeeding_env playbook_job empty_world)) \<and>
   files (snd (runAnsiblePlaybook succeeding_env playbook_job empty_world))
     ''/tmp/job-7/playbook.yml'' = None \<and>
   work_dir failing_env playbook_job = ''/tmp/job-7'' \<and>
   fst (runAnsiblePlaybook failing_env playbook_job empty_world) =
     Rejected (Error (''ansible-playbook fall'' @ o_acute @ '' con c'' @ o_acute @ ''digo 2:'' @
                      nl @ ''unreachable'')) \<and>
   fs_log (snd (runAnsiblePlaybook failing_env playbook_job empty_world)) =
     [Mkdir ''/tmp/job-7'', WriteFile ''/tmp/job-7/inventory.ini'',
      WriteFile ''/tmp/job-7/playbook.yml'', Rm ''/tmp/job-7''] \<and>
   work_dir injected_env playbook_job = ''/tmp/job-7'' \<and>
   fst (runAnsiblePlaybook injected_env playbook_job empty_world) = Rejected disk_full \<and>
   fs_log (snd (runAnsiblePlaybook injected_env playbook_job empty_world)) =
     [Mkdir ''/tmp/job-7'', WriteFile ''/tmp/job-7/inventory.ini'',
      WriteFile ''/tmp/job-7/playbook.yml'', Rm ''/tmp/job-7''] \<and>
   ''/tmp/job-7'' \<notin> dirs (snd (runAnsiblePlaybook injected_env playbook_job empty_world))"
proof -
  have ends: "\<forall>cmd argv. ending_of (behaviour succeeding_env cmd argv) \<noteq> NoEnd"
    by (simp add: succeeding_ends)
  have wd: "work_dir succeeding_env playbook_job = ''/tmp/job-7''"
    "work_dir failing_env playbook_job = ''/tmp/job-7''"
    "work_dir injected_env playbook_job = ''/tmp/job-7''"
    by (simp_all add: work_dir_def path_join_def path_normalize_def injected_env_def
          succeeding_env_def failing_env_def quiet_env_def playbook_job_def)
  have rm: "rm_error succeeding_env ''/tmp/job-7'' = None"
    "rm_error injected_env ''/tmp/job-7'' = None"
    by (simp_all add: injected_env_def succeeding_env_def quiet_env_def)
  have ins: "inside ''/tmp/job-7'' ''/tmp/job-7/playbook.yml''" "inside ''/tmp/job-7'' ''/tmp/job-7''"
    by (simp_all add: inside_def path_components_def)
  have ok: "fst (playbook_body succeeding_env playbook_job ''/tmp/job-7'' empty_world) =
     Fulfilled (JObj [(''output'', JStr ''PLAY RECAP''), (''exitCode'', JNum 0),
                      (''duration'', JNum 5000)])"
    "fs_log (snd (playbook_body succeeding_env playbook_job ''/tmp/job-7'' empty_world)) =
     [Mkdir ''/tmp/job-7'', WriteFile ''/tmp/job-7/inventory.ini'',
      WriteFile ''/tmp/job-7/playbook.yml'']"
    "''/tmp/job-7'' \<in> dirs (snd (playbook_body succeeding_env playbook_job ''/tmp/job-7'' empty_world))"
    "files (snd (playbook_body succeeding_env playbook_job ''/tmp/job-7'' empty_world))
       ''/tmp/job-7/playbook.yml'' = Some ''- hosts: all''"
    by (simp_all add: succeeding_env_def run_defs)
  have bad: "fst (playbook_body failing_env playbook_job ''/tmp/job-7'' empty_world) =
     Rejected (Error (''ansible-playbook fall'' @ o_acute @ '' con c'' @ o_acute @ ''digo 2:'' @
                      nl @ ''unreachable''))"
    "fs_log (snd (playbook_body failing_env playbook_job ''/tmp/job-7'' empty_world)) =
     [Mkdir ''/tmp/job-7'', WriteFile ''/tmp/job-7/inventory.ini'',
      WriteFile ''/tmp/job-7/playbook.yml'']"
    by (simp_all add: failing_env_def run_defs exit_message_def code_text_def)
  have inj: "fst (playbook_body injected_env playbook_job ''/tmp/job-7'' empty_world) =
      Rejected disk_full"
    "fs_log (snd (playbook_body injected_env playbook_job ''/tmp/job-7'' empty_world)) =
     [Mkdir ''/tmp/job-7'', WriteFile ''/tmp/job-7/inventory.ini'',
      WriteFile ''/tmp/job-7/playbook.yml'']"
    by (simp_all add: injected_env_def succeeding_env_def run_defs)
  from cleanup_on_every_exit [of succeeding_env playbook_job empty_world]
    cleanup_on_every_exit [of failing_env playbook_job empty_world]
    cleanup_on_every_exit [of injected_env playbook_job empty_world]
    ends wd rm ins ok bad inj
  show ?thesis
    by simp
qed

subsection \<open>The availability probe and the local run\<close>

lemma probe_never_rejects: "fst (checkDockerAvailable env w) \<noteq> Rejected e"
  by (simp add: checkDockerAvailable_def probe_result_ending split: ending.splits)

text \<open>
  C6, as the code has it. The probe spawns \<^verbatim>\<open>docker --version\<close> and never rejects. When
  the probe process closes with a code other than 0 or raises an error, the probe gives
  \<open>false\<close>, and the run goes on with \<^verbatim>\<open>ansible-playbook\<close> on the host, on the
  inventory and playbook files: its outcome is the outcome of that command.
\<close>

theorem probe_unavailable_runs_locally:
  "(\<forall>e. fst (checkDockerAvailable env w) \<noteq> Rejected e) \<and>
   ((\<exists>code. ending_of (behaviour env ''docker'' [''--version'']) = Exit code \<and> code \<noteq> Some 0) \<or>
    (\<exists>err. ending_of (behaviour env ''docker'' [''--version'']) = Failure err) \<longrightarrow>
      checkDockerAvailable env w = (Fulfilled False, w\<lparr>spawned := spawned w @ [probe_call]\<rparr>) \<and>
      probe_and_run env workDir inventoryPath playbookPath extraVarsArg job w =
        executeCommand env ''ansible-playbook''
          ([''-i'', inventoryPath, playbookPath] @
           (if extraVarsArg \<noteq> [] then [''--extra-vars'', ''@'' @ path_join workDir ''vars.yml'']
            else []))
          job (w\<lparr>spawned := spawned w @ [probe_call]\<rparr>))"
proof -
  have never: "\<forall>e. fst (checkDockerAvailable env w) \<noteq> Rejected e"
    by (simp add: probe_never_rejects)
  have fallback:
    "checkDockerAvailable env w = (Fulfilled False, w\<lparr>spawned := spawned w @ [probe_call]\<rparr>) \<and>
     probe_and_run env workDir inventoryPath playbookPath extraVarsArg job w =
       executeCommand env ''ansible-playbook''
         ([''-i'', inventoryPath, playbookPath] @
          (if extraVarsArg \<noteq> [] then [''--extra-vars'', ''@'' @ path_join workDir ''vars.yml'']
           else []))
         job (w\<lparr>spawned := spawned w @ [probe_call]\<rparr>)"
    if "(\<exists>code. ending_of (behaviour env ''docker'' [''--version'']) = Exit code \<and> code \<noteq> Some 0) \<or>
        (\<exists>err. ending_of (behaviour env ''docker'' [''--version'']) = Failure err)"
  proof -
    from that have "probe_result (behaviour env ''docker'' [''--version'']) = Fulfilled False"
      by (auto simp: probe_result_ending)
    then have "checkDockerAvailable env w =
        (Fulfilled False, w\<lparr>spawned := spawned w @ [probe_call]\<rparr>)"
      by (simp add: checkDockerAvailable_def probe_call_def)
    then show ?thesis
      by (simp add: probe_and_run_def runWithLocalAnsible_def Let_def)
  qed
  from never fallback show ?thesis by blast
qed

theorem probe_unavailable_runs_locally_witness:
  "ending_of (behaviour no_docker_env ''docker'' [''--version'']) = Failure enoent \<and>
   probe_and_run no_docker_env ''/tmp/job-7'' ''/tmp/job-7/inventory.ini''
       ''/tmp/job-7/playbook.yml'' [] playbook_job empty_world =
     (Fulfilled (JObj [(''output'', JStr ''PLAY RECAP''), (''exitCode'', JNum 0),
                       (''duration'', JNum 5000)]),
      empty_world\<lparr>spawned :=
        [probe_call,
         \<lparr>command = ''ansible-playbook'',
          args = [''-i'', ''/tmp/job-7/inventory.ini'', ''/tmp/job-7/playbook.yml''],
          options = []\<rparr>],
        emitted :=
         [\<lparr>room = Some ''job-7'', event = ''job-log'',
           payload = JObj [(''jobId'', JNum 7), (''log'', JStr ''PLAY RECAP''),
                           (''timestamp'', JStr ''2023-11-14T22:13:25.000Z'')]\<rparr>]\<rparr>)"
proof -
  have fail: "ending_of (behaviour no_docker_env ''docker'' [''--version'']) = Failure enoent"
    by (simp add: no_docker_env_def quiet_env_def)
  have run: "executeCommand no_docker_env ''ansible-playbook''
          [''-i'', ''/tmp/job-7/inventory.ini'', ''/tmp/job-7/playbook.yml''] playbook_job
          (empty_world\<lparr>spawned := spawned empty_world @ [probe_call]\<rparr>) =
     (Fulfilled (JObj [(''output'', JStr ''PLAY RECAP''), (''exitCode'', JNum 0),
                       (''duration'', JNum 5000)]),
      empty_world\<lparr>spawned :=
        [probe_call,
         \<lparr>command = ''ansible-playbook'',
          args = [''-i'', ''/tmp/job-7/inventory.ini'', ''/tmp/job-7/playbook.yml''],
          options = []\<rparr>],
        emitted :=
         [\<lparr>room = Some ''job-7'', event = ''job-log'',
           payload = JObj [(''jobId'', JNum 7), (''log'', JStr ''PLAY RECAP''),
                           (''timestamp'', JStr ''2023-11-14T22:13:25.000Z'')]\<rparr>]\<rparr>)"
    by (simp add: no_docker_env_def run_defs)
  from probe_unavailable_runs_locally [of no_docker_env empty_world "''/tmp/job-7''"
      "''/tmp/job-7/inventory.ini''" "''/tmp/job-7/playbook.yml''" "[]" playbook_job] fail run
  show ?thesis by simp
qed

text \<open>
  C6, as stated, fails on the timeout: the probe's spawn call carries no timeout option,
  and when \<^verbatim>\<open>docker --version\<close> never closes the probe stays pending, and with it the
  whole run, which has spawned nothing but the probe.
\<close>

theorem probe_without_timeout:
  "map_of (options probe_call) ''timeout'' = None \<and>
   ending_of (behaviour quiet_env ''docker'' [''--version'']) = NoEnd \<and>
   fst (checkDockerAvailable quiet_env empty_world) = Pending \<and>
   fst (runAnsiblePlaybook quiet_env playbook_job empty_world) = Pending \<and>
   spawned (snd (runAnsiblePlaybook quiet_env playbook_job empty_world)) = [probe_call]"
  by (simp add: run_defs)

subsection \<open>The worker's record of a job\<close>

text \<open>Nothing the runners do touches the \<^verbatim>\<open>jobs\<close> table.\<close>

lemma fs_mkdir_rows: "fs_mkdir env p w = (r, w1) \<Longrightarrow> rows w1 = rows w"
  by (auto simp: fs_mkdir_def Let_def split: option.splits)

lemma fs_writeFile_rows: "fs_writeFile env p d w = (r, w1) \<Longrightarrow> rows w1 = rows w"
  by (auto simp: fs_writeFile_def Let_def split: option.splits sum.splits json.splits)

lemma fs_rm_rows: "rows (snd (fs_rm env p w)) = rows w"
  by (simp add: fs_rm_def Let_def split: option.splits)

lemma executeCommand_rows: "executeCommand env cmd argv job w = (r, w1) \<Longrightarrow> rows w1 = rows w"
  by (auto simp: executeCommand_def Let_def)

lemma write_vars_rows: "write_vars env workDir variables w = (r, w1) \<Longrightarrow> rows w1 = rows w"
  by (auto simp: write_vars_def Let_def split: sum.splits if_splits prod.splits option.splits
      dest: fs_writeFile_rows)

lemma probe_and_run_rows:
  "probe_and_run env workDir ip pp ev job w = (r, w1) \<Longrightarrow> rows w1 = rows w"
  by (auto simp: probe_and_run_def checkDockerAvailable_def runWithDocker_def
        runWithLocalAnsible_def Let_def
      split: promise.splits if_splits dest: executeCommand_rows)

lemma playbook_body_rows: "playbook_body env job workDir w = (r, w1) \<Longrightarrow> rows w1 = rows w"
  by (auto simp: playbook_body_def Let_def
      split: prod.splits option.splits sum.splits
      dest!: fs_mkdir_rows fs_writeFile_rows write_vars_rows probe_and_run_rows)

lemma runAnsiblePlaybook_rows: "rows (snd (runAnsiblePlaybook env job w)) = rows w"
  by (auto simp: runAnsiblePlaybook_def Let_def fs_rm_rows
      split: prod.splits promise.splits dest: playbook_body_rows)

lemma run_job_rows: "rows (snd (run_job env job w)) = rows w"
  by (simp add: run_job_def runAnsiblePlaybook_rows)

lemma update_row_hit:
  "db_reachable env \<Longrightarrow> rows w n = Some r \<Longrightarrow>
   rows (update_row env (Some (JNum n)) f w) = (rows w)(n \<mapsto> f r)"
  by (simp add: update_row_def)

lemma processor_outcome:
  "fst (processor env job w) =
   fst (run_job env job (update_row env (map_of (job_data job) ''dbJobId'')
     (\<lambda>r. r\<lparr>row_status := ''running'', row_started_at := Some (now_ms env)\<rparr>) w))"
  by (simp add: processor_def Let_def split: prod.splits promise.splits)

lemma processor_rejected_rows:
  assumes rej: "fst (processor env job w) = Rejected err"
    and db: "db_reachable env"
    and key: "map_of (job_data job) ''dbJobId'' = Some (JNum n)"
    and row: "rows w n = Some r"
  shows "rows (snd (processor env job w)) n =
     Some (r\<lparr>row_status := ''failed'',
             row_result := Some (JObj [(''error'', JStr (message err))]),
             row_started_at := Some (now_ms env),
             row_completed_at := Some (now_ms env)\<rparr>)"
proof -
  let ?w1 = "update_row env (Some (JNum n))
               (\<lambda>r. r\<lparr>row_status := ''running'', row_started_at := Some (now_ms env)\<rparr>) w"
  obtain p w2 where run: "run_job env job ?w1 = (p, w2)" by (cases "run_job env job ?w1")
  from rej run key have p: "p = Rejected err"
    by (simp add: processor_outcome)
  have "rows w2 = rows ?w1" using run_job_rows [of env job ?w1] run by simp
  then have w2: "rows w2 n =
      Some (r\<lparr>row_status := ''running'', row_started_at := Some (now_ms env)\<rparr>)"
    using db row by (simp add: update_row_hit)
  show ?thesis
    using run p key db w2 by (simp add: processor_def Let_def update_row_hit)
qed

text \<open>The attempt count and the options of a job are never read.\<close>

lemma on_event_attempts:
  "on_event env cmd (job\<lparr>attemptsMade := k, opts := d\<rparr>) ev st = on_event env cmd job ev st"
  by (cases ev) (simp_all add: Let_def)

lemma run_events_attempts:
  "run_events env cmd (job\<lparr>attemptsMade := k, opts := d\<rparr>) evs st = run_events env cmd job evs st"
  by (induction evs arbitrary: st) (simp_all add: on_event_attempts del: on_event.simps)

lemma executeCommand_attempts:
  "executeCommand env cmd argv (job\<lparr>attemptsMade := k, opts := d\<rparr>) w =
   executeCommand env cmd argv job w"
  by (simp add: executeCommand_def run_events_attempts)

lemma probe_and_run_attempts:
  "probe_and_run env workDir ip pp ev (job\<lparr>attemptsMade := k, opts := d\<rparr>) w =
   probe_and_run env workDir ip pp ev job w"
  by (simp add: probe_and_run_def runWithDocker_def runWithLocalAnsible_def executeCommand_attempts
      split: prod.splits promise.splits)

lemma runAnsiblePlaybook_attempts:
  "runAnsiblePlaybook env (job\<lparr>attemptsMade := k, opts := d\<rparr>) w = runAnsiblePlaybook env job w"
  by (simp add: runAnsiblePlaybook_def playbook_body_def work_dir_def probe_and_run_attempts Let_def
      cong: prod.case_cong option.case_cong sum.case_cong promise.case_cong)

lemma run_job_attempts:
  "run_job env (job\<lparr>attemptsMade := k, opts := d\<rparr>) w = run_job env job w"
  by (simp add: run_job_def runAnsiblePlaybook_attempts runTestEcho_def
        runTerraformPlan_def runTerraformApply_def cong: if_cong)

lemma processor_attempts:
  "processor env (job\<lparr>attemptsMade := k, opts := d\<rparr>) w = processor env job w"
  by (simp add: processor_def run_job_attempts)

text \<open>
  C1, as the code has it. What the processing function does is the same whatever the
  attempt count and the retry options of the job are. Its outcome is the outcome of the
  runner, so an error of the runner is thrown on to the queue library. Whenever it ends
  with an error, and the database is reachable and has the job's row, the row is left with
  status \<^verbatim>\<open>failed\<close> and the error message as its result.
\<close>

theorem failure_written_on_every_attempt:
  "processor env (job\<lparr>attemptsMade := k, opts := d\<rparr>) w = processor env job w \<and>
   fst (processor env job w) =
     fst (run_job env job (update_row env (map_of (job_data job) ''dbJobId'')
       (\<lambda>r. r\<lparr>row_status := ''running'', row_started_at := Some (now_ms env)\<rparr>) w)) \<and>
   (fst (processor env job w) = Rejected err \<and> db_reachable env \<and>
    map_of (job_data job) ''dbJobId'' = Some (JNum n) \<and> rows w n = Some r \<longrightarrow>
      rows (snd (processor env job w)) n =
        Some (r\<lparr>row_status := ''failed'',
                row_result := Some (JObj [(''error'', JStr (message err))]),
                row_started_at := Some (now_ms env),
                row_completed_at := Some (now_ms env)\<rparr>))"
  using processor_attempts processor_outcome processor_rejected_rows by blast

lemma failing_run:
  "fst (processor failing_env playbook_job registry_world) =
     Rejected (Error (''ansible-playbook fall'' @ o_acute @ '' con c'' @ o_acute @ ''digo 2:'' @
                      nl @ ''unreachable''))"
  by (simp add: processor_def run_job_def update_row_def registry_world_def queued_row_def
        failing_env_def run_defs exit_message_def code_text_def)

theorem failure_written_on_every_attempt_witness:
  "fst (processor failing_env playbook_job registry_world) =
     Rejected (Error (''ansible-playbook fall'' @ o_acute @ '' con c'' @ o_acute @ ''digo 2:'' @
                      nl @ ''unreachable'')) \<and>
   db_reachable failing_env \<and>
   map_of (job_data playbook_job) ''dbJobId'' = Some (JNum 7) \<and>
   rows registry_world 7 = Some queued_row \<and>
   rows (snd (processor failing_env playbook_job registry_world)) 7 =
     Some \<lparr>row_status = ''failed'',
           row_result = Some (JObj [(''error'',
             JStr (''ansible-playbook fall'' @ o_acute @ '' con c'' @ o_acute @ ''digo 2:'' @
                   nl @ ''unreachable''))]),
           row_started_at = Some 1700000005000, row_completed_at = Some 1700000005000\<rparr>"
proof -
  have db: "db_reachable failing_env"
    by (simp add: failing_env_def quiet_env_def)
  have key: "map_of (job_data playbook_job) ''dbJobId'' = Some (JNum 7)"
    by (simp add: playbook_job_def)
  have row: "rows registry_world 7 = Some queued_row"
    by (simp add: registry_world_def empty_world_def)
  have now: "now_ms failing_env = 1700000005000"
    by (simp add: failing_env_def quiet_env_def)
  from failure_written_on_every_attempt [where env = failing_env and job = playbook_job
      and w = registry_world and n = 7 and r = queued_row and
      err = "Error (''ansible-playbook fall'' @ o_acute @ '' con c'' @ o_acute @ ''digo 2:'' @
                    nl @ ''unreachable'')"]
    failing_run db key row now
  show ?thesis by (simp add: queued_row_def Error_def)
qed

text \<open>
  C1, as stated, fails: on the first of three attempts, with two left, a playbook job
  whose command exits with code 2 has its row marked \<^verbatim>\<open>failed\<close>; and with
  \<^verbatim>\<open>global.io\<close> set, the only messages sent are the log lines.
\<close>

theorem marked_failed_with_attempts_left:
  "attemptsMade playbook_job + 1 < attempts (opts playbook_job) \<and>
   fst (processor failing_env playbook_job registry_world) =
     Rejected (Error (''ansible-playbook fall'' @ o_acute @ '' con c'' @ o_acute @ ''digo 2:'' @
                      nl @ ''unreachable'')) \<and>
   map_option row_status (rows (snd (processor failing_env playbook_job registry_world)) 7) =
     Some ''failed'' \<and>
   io_present failing_env \<and>
   map event (emitted (snd (processor failing_env playbook_job registry_world))) = [''job-log'']"
  by (simp add: processor_def run_job_def update_row_def registry_world_def queued_row_def
        failing_env_def run_defs exit_message_def code_text_def default_opts_def)

text \<open>
  C9. For an echo job with message \<open>m\<close>, \<^verbatim>\<open>runTestEcho\<close> resolves after 2000 ms with
  \<^verbatim>\<open>output\<close> equal to \<^verbatim>\<open>Echo: \<close> followed by \<open>m\<close> and \<^verbatim>\<open>exitCode\<close> 0 (and the clock
  reading as \<^verbatim>\<open>timestamp\<close>); the processing function is fulfilled with that result,
  and a reachable database that has the job's row holds it as \<^verbatim>\<open>completed\<close> with the
  result.
\<close>

theorem echo_job_completes:
  "map_of (job_data job) ''message'' = Some (JStr m) \<longrightarrow>
     runTestEcho env job =
       After 2000 (JObj [(''output'', JStr (''Echo: '' @ m)),
                         (''timestamp'', JStr (now_iso env)), (''exitCode'', JNum 0)]) \<and>
     (job_name job = ''test-echo'' \<longrightarrow>
        fst (processor env job w) =
          Fulfilled (JObj [(''output'', JStr (''Echo: '' @ m)),
                           (''timestamp'', JStr (now_iso env)), (''exitCode'', JNum 0)]) \<and>
        (db_reachable env \<and> map_of (job_data job) ''dbJobId'' = Some (JNum n) \<and>
         rows w n = Some r \<longrightarrow>
           rows (snd (processor env job w)) n =
             Some (r\<lparr>row_status := ''completed'',
                     row_result := Some (JObj [(''output'', JStr (''Echo: '' @ m)),
                         (''timestamp'', JStr (now_iso env)), (''exitCode'', JNum 0)]),
                     row_started_at := Some (now_ms env),
                     row_completed_at := Some (now_ms env)\<rparr>)))"
  by (simp add: runTestEcho_def template_def processor_def run_job_def Let_def update_row_def)

theorem echo_job_completes_witness:
  "map_of (job_data echo_job) ''message'' = Some (JStr ''ping'') \<and>
   job_name echo_job = ''test-echo'' \<and>
   db_reachable quiet_env \<and> map_of (job_data echo_job) ''dbJobId'' = Some (JNum 7) \<and>
   rows registry_world 7 = Some queued_row \<and>
   runTestEcho quiet_env echo_job =
     After 2000 (JObj [(''output'', JStr ''Echo: ping''),
                       (''timestamp'', JStr ''2023-11-14T22:13:25.000Z''), (''exitCode'', JNum 0)]) \<and>
   fst (processor quiet_env echo_job registry_world) =
     Fulfilled (JObj [(''output'', JStr ''Echo: ping''),
                      (''timestamp'', JStr ''2023-11-14T22:13:25.000Z''), (''exitCode'', JNum 0)]) \<and>
   map_option row_status (rows (snd (processor quiet_env echo_job registry_world)) 7) =
     Some ''completed''"
proof -
  have m: "map_of (job_data echo_job) ''message'' = Some (JStr ''ping'')"
    and nm: "job_name echo_job = ''test-echo''"
    and key: "map_of (job_data echo_job) ''dbJobId'' = Some (JNum 7)"
    by (simp_all add: echo_job_def)
  have db: "db_reachable quiet_env" and iso: "now_iso quiet_env = ''2023-11-14T22:13:25.000Z''"
    by (simp_all add: quiet_env_def)
  have row: "rows registry_world 7 = Some queued_row"
    by (simp add: registry_world_def empty_world_def)
  from echo_job_completes [where job = echo_job and m = "''ping''" and env = quiet_env
      and w = registry_world and n = 7 and r = queued_row]
    m nm key db iso row
  show ?thesis by simp
qed

subsection \<open>Submissions to the demo server\<close>





















lemmas server_defs =
  demo_server_def initial_server_def initial_jobs_def playbook_request_def echo_request_def
  plan_request_def post_playbook_def post_terraform_plan_def post_terraform_apply_def
  post_terraform_def post_test_echo_def Let_def response_status_def status_of_def
  start_callback_def complete_callback_def found_def never_failed_def truthy_opt_def
  template_def own_prop_def with_default_def jobs_with_def submitted_job_def
  events_before_def events_between_def events_after_def



text \<open>
  A defect of the ids. They are clock readings plus 0 to 3, so two jobs can get the same
  one: a plan request at clock reading \<open>t\<close> and a playbook request at \<open>t + 1\<close> both
  get \<open>t + 1\<close>. All four callbacks then find the playbook job, which is the newer one,
  and the plan job stays \<^verbatim>\<open>queued\<close> for ever.
\<close>

lemma shared_id_leaves_job_queued:
  "map (\<lambda>j. (jid j, jtype j, jstatus j))
     (jobs
       (run_callback ''2023-11-14T22:13:27.000Z'' (complete_callback 1700000000000 plan_request)
         (run_callback ''2023-11-14T22:13:25.001Z'' (complete_callback 1700000000001 playbook_request)
           (run_callback ''2023-11-14T22:13:21.001Z'' (start_callback 1700000000001 playbook_request)
             (run_callback ''2023-11-14T22:13:21.000Z'' (start_callback 1700000000000 plan_request)
               (snd (handle 1700000000001 ''2023-11-14T22:13:20.001Z'' playbook_request
                 (snd (handle 1700000000000 ''2023-11-14T22:13:20.000Z'' plan_request
                   demo_server))))))))) =
   [(1700000000001, ''ansible-playbook'', ''completed''),
    (1700000000001, ''terraform-plan'', ''queued''),
    (1, ''ansible-playbook'', ''completed''),
    (2, ''terraform-plan'', ''running'')]"
  by (simp add: server_defs)

text \<open>
  C7 does not hold on the code: only the playbook endpoint checks its fields. A plan, an
  apply or an echo request with an empty body is answered with 200 and stored as a job
  (with the name built from \<open>undefined\<close>); a playbook request without \<^verbatim>\<open>playbook\<close> is
  answered with 400 and changes nothing.
\<close>

theorem unvalidated_submissions_are_stored:
  "post_terraform_plan now stamp [] s =
     (\<lparr>http_status = 200,
       http_body = JObj [(''jobId'', JNum (now + 1)), (''status'', JStr ''queued''),
         (''message'', JStr (''Terraform plan encolado para ejecuci'' @ o_acute @ ''n''))]\<rparr>,
      s\<lparr>jobs := \<lparr>jid = now + 1, jname = Some (JStr ''undefined - Plan''),
                   jtype = ''terraform-plan'', jstatus = ''queued'', created_at = stamp,
                   jpayload = Some (JObj [(''variables'', JObj [])]),
                   started_at = None, completed_at = None, jresult = None\<rparr> # jobs s,
        timers := timers s @ [(1000, StartJob Plan (now + 1) None)]\<rparr>) \<and>
   post_terraform_apply now stamp [] s =
     (\<lparr>http_status = 200,
       http_body = JObj [(''jobId'', JNum (now + 2)), (''status'', JStr ''queued''),
         (''message'', JStr (''Terraform apply encolado para ejecuci'' @ o_acute @ ''n''))]\<rparr>,
      s\<lparr>jobs := \<lparr>jid = now + 2, jname = Some (JStr ''undefined - Apply''),
                   jtype = ''terraform-apply'', jstatus = ''queued'', created_at = stamp,
                   jpayload = Some (JObj [(''variables'', JObj [])]),
                   started_at = None, completed_at = None, jresult = None\<rparr> # jobs s,
        timers := timers s @ [(1000, StartJob Apply (now + 2) None)]\<rparr>) \<and>
   post_test_echo now stamp [] s =
     (\<lparr>http_status = 200,
       http_body = JObj [(''jobId'', JNum (now + 3)), (''status'', JStr ''completed''),
         (''message'', JStr ''Echo job creado: undefined'')]\<rparr>,
      s\<lparr>jobs := \<lparr>jid = now + 3, jname = Some (JStr ''Echo: undefined''),
                   jtype = ''test-echo'', jstatus = ''completed'', created_at = stamp,
                   jpayload = None, started_at = None, completed_at = None,
                   jresult = Some (JObj [(''output'', JStr ''Echo: undefined''),
                                         (''exitCode'', JNum 0)])\<rparr> # jobs s\<rparr>) \<and>
   post_playbook now stamp [(''name'', JStr ''deploy''), (''inventory'', JStr ''localhost'')] s =
     (\<lparr>http_status = 400,
       http_body = JObj [(''error'', JStr ''Faltan campos obligatorios: name, playbook, inventory'')]\<rparr>,
      s)"
  by (simp add: post_terraform_plan_def post_terraform_apply_def post_terraform_def
        post_test_echo_def post_playbook_def Let_def template_def own_prop_def with_default_def
        truthy_opt_def)

theorem unvalidated_submissions_are_stored_witness:
  "response_status (fst (post_terraform_plan 1700000000000 ''2023-11-14T22:13:20.000Z'' []
      demo_server)) = Some (JStr ''queued'') \<and>
   map (\<lambda>j. (jid j, jname j, jstatus j, jpayload j))
     (jobs (snd (post_terraform_plan 1700000000000 ''2023-11-14T22:13:20.000Z'' [] demo_server))) =
     [(1700000000001, Some (JStr ''undefined - Plan''), ''queued'',
       Some (JObj [(''variables'', JObj [])])),
      (1, Some (JStr ''Deploy Web Server''), ''completed'', None),
      (2, Some (JStr ''AWS Infrastructure''), ''running'', None)] \<and>
   timers (snd (post_terraform_plan 1700000000000 ''2023-11-14T22:13:20.000Z'' [] demo_server)) =
     [(1000, StartJob Plan 1700000000001 None)] \<and>
   post_playbook 1700000000000 ''2023-11-14T22:13:20.000Z''
       [(''name'', JStr ''deploy''), (''inventory'', JStr ''localhost'')] demo_server =
     (\<lparr>http_status = 400,
       http_body = JObj [(''error'', JStr ''Faltan campos obligatorios: name, playbook, inventory'')]\<rparr>,
      demo_server)"
  using unvalidated_submissions_are_stored [of 1700000000000 "''2023-11-14T22:13:20.000Z''"
      demo_server]
  by (simp add: response_status_def demo_server_def initial_server_def initial_jobs_def)

subsection \<open>The queue\<close>

text \<open>
  C8, as the code has it. Every entry that \<^verbatim>\<open>createJob\<close> enqueues has the given name
  and data, 3 attempts, exponential backoff with base delay 2000 ms, retention of 50
  completed and 20 failed entries, and an initial delay of 1000 ms. It is enqueued when
  \<^verbatim>\<open>jobQueue.add\<close> does not reject; a rejection is thrown on.
\<close>

theorem createJob_options:
  "(createJob q jobType jobData = Inr entry \<longrightarrow>
      entry_name entry = jobType \<and> entry_data entry = jobData \<and>
      attempts (entry_opts entry) = 3 \<and>
      backoff (entry_opts entry) = \<lparr>backoff_type = ''exponential'', backoff_delay = 2000\<rparr> \<and>
      removeOnComplete (entry_opts entry) = 50 \<and> removeOnFail (entry_opts entry) = 20 \<and>
      delay (entry_opts entry) = 1000) \<and>
   (add_error q = None \<longrightarrow> (\<exists>entry. createJob q jobType jobData = Inr entry)) \<and>
   (add_error q = Some e \<longrightarrow> createJob q jobType jobData = Inl e)"
  by (auto simp: createJob_def queue_add_def split: option.splits sum.splits)

theorem createJob_options_witness:
  "add_error idle_queue = None \<and>
   createJob idle_queue ''test-echo'' [(''message'', JStr ''ping'')] =
     Inr \<lparr>entry_id = ''1'', entry_name = ''test-echo'', entry_data = [(''message'', JStr ''ping'')],
          entry_opts = default_opts\<rparr> \<and>
   add_error unreachable_queue = Some redis_down \<and>
   createJob unreachable_queue ''test-echo'' [(''message'', JStr ''ping'')] = Inl redis_down"
  using createJob_options [of idle_queue "''test-echo''" "[(''message'', JStr ''ping'')]"
      "\<lparr>entry_id = ''1'', entry_name = ''test-echo'', entry_data = [(''message'', JStr ''ping'')],
          entry_opts = default_opts\<rparr>" redis_down]
    createJob_options [of unreachable_queue "''test-echo''" "[(''message'', JStr ''ping'')]"
      "\<lparr>entry_id = ''1'', entry_name = ''test-echo'', entry_data = [(''message'', JStr ''ping'')],
          entry_opts = default_opts\<rparr>" redis_down]
  by (simp add: idle_queue_def unreachable_queue_def createJob_def queue_add_def default_opts_def)

text \<open>C8, as stated, fails on the initial delay: the entry's delay is 1000 ms, not 0.\<close>

theorem createJob_delay_not_zero:
  "map_sum message (\<lambda>entry. delay (entry_opts entry))
     (createJob idle_queue ''test-echo'' [(''message'', JStr ''ping'')]) = Inr 1000 \<and>
   map_sum message (\<lambda>entry. delay (entry_opts entry))
     (createJob idle_queue ''test-echo'' [(''message'', JStr ''ping'')]) \<noteq> Inr 0"
  by (simp add: idle_queue_def createJob_def queue_add_def)

text \<open>
  C10. \<^verbatim>\<open>getQueueStats\<close> always returns counts and never an error. When any of the four
  reads of the queue fails it returns four zeros, which is also what it returns for a
  queue whose four lists are empty.
\<close>

theorem getQueueStats_never_throws:
  "(\<exists>counts. getQueueStats q = Inr counts) \<and>
   ((\<exists>e. getWaiting q = Inl e) \<or> (\<exists>e. getActive q = Inl e) \<or> (\<exists>e. getCompleted q = Inl e) \<or>
    (\<exists>e. getFailed q = Inl e) \<longrightarrow>
      getQueueStats q = Inr \<lparr>waiting = 0, active = 0, completed = 0, failed = 0\<rparr>) \<and>
   (getWaiting q = Inr [] \<and> getActive q = Inr [] \<and> getCompleted q = Inr [] \<and>
    getFailed q = Inr [] \<longrightarrow>
      getQueueStats q = Inr \<lparr>waiting = 0, active = 0, completed = 0, failed = 0\<rparr>)"
  by (auto simp: getQueueStats_def read_counts_def split: sum.splits)

theorem getQueueStats_never_throws_witness:
  "getWaiting unreachable_queue = Inl redis_down \<and>
   getQueueStats unreachable_queue = Inr \<lparr>waiting = 0, active = 0, completed = 0, failed = 0\<rparr> \<and>
   getWaiting idle_queue = Inr [] \<and> getActive idle_queue = Inr [] \<and>
   getCompleted idle_queue = Inr [] \<and> getFailed idle_queue = Inr [] \<and>
   getQueueStats idle_queue = getQueueStats unreachable_queue"
  using getQueueStats_never_throws [of unreachable_queue] getQueueStats_never_throws [of idle_queue]
  by (simp add: unreachable_queue_def idle_queue_def)

end
